theory Spec2Isabelle
  imports Main
begin

section \<open>Drive Playground service: the data model\<close>

text \<open>
  A shallow embedding of \<^verbatim>\<open>scripts/drive_playground/drive_playground_service.py\<close>.
  Python \<^verbatim>\<open>str\<close> values are character lists; every \<^verbatim>\<open>raise\<close> is a value of
  \<open>exn\<close> returned on the left of a sum; the process environment, the local disk, the
  remote storage account and the sequence of effects are fields of an explicit world
  that each function takes and returns.
\<close>

type_synonym str = string
type_synonym bytes = string

datatype exn =
    RuntimeError str
  | ValueError str
  | JSONDecodeError str
  | FileNotFoundError str
  | HTTPException int str
  | HttpError int str
  | RefreshError str

text \<open>\<^verbatim>\<open>str(e)\<close>: the message an exception carries.\<close>

fun exn_str :: "exn \<Rightarrow> str" where
  "exn_str (RuntimeError m) = m"
| "exn_str (ValueError m) = m"
| "exn_str (JSONDecodeError m) = m"
| "exn_str (FileNotFoundError m) = m"
| "exn_str (HTTPException s m) = m"
| "exn_str (HttpError s m) = m"
| "exn_str (RefreshError m) = m"

text \<open>
  \<^verbatim>\<open>except (json.JSONDecodeError, ValueError)\<close>: the exceptions that clause catches.
\<close>

fun is_value_error :: "exn \<Rightarrow> bool" where
  "is_value_error (ValueError m) = True"
| "is_value_error (JSONDecodeError m) = True"
| "is_value_error e = False"

subsection \<open>Python string operations used by the service\<close>

text \<open>The single quote, as a one-character string.\<close>

definition sq :: str where
  "sq = [CHR 0x27]"

text \<open>\<^verbatim>\<open>str.isspace\<close> on the code points below 256.\<close>

definition isspace :: "char \<Rightarrow> bool" where
  "isspace c = ((of_char c :: nat) \<in> set [9, 10, 11, 12, 13, 28, 29, 30, 31, 32, 133, 160])"

definition strip :: "str \<Rightarrow> str" where
  "strip s = rev (dropWhile isspace (rev (dropWhile isspace s)))"

definition removeprefix :: "str \<Rightarrow> str \<Rightarrow> str" where
  "removeprefix p s = (if take (length p) s = p then drop (length p) s else s)"

text \<open>\<^verbatim>\<open>x or y\<close> for an optional string \<open>x\<close>: \<open>None\<close> and the empty string are falsy.\<close>

definition or_else :: "str option \<Rightarrow> str \<Rightarrow> str" where
  "or_else x y = (case x of None \<Rightarrow> y | Some v \<Rightarrow> if v = [] then y else v)"

text \<open>\<^verbatim>\<open>sep.join(xs)\<close>.\<close>

fun join :: "str \<Rightarrow> str list \<Rightarrow> str" where
  "join sep [] = []"
| "join sep [x] = x"
| "join sep (x # y # ys) = x @ sep @ join sep (y # ys)"

subsection \<open>Values exchanged with the storage provider\<close>

text \<open>A JSON value of a request body, and the body itself (a dict, in insertion order).\<close>

datatype jv = JS str | JL "str list"

type_synonym body = "(str \<times> jv) list"

text \<open>\<^verbatim>\<open>MediaIoBaseUpload(io.BytesIO(data), mimetype=..., resumable=False)\<close>.\<close>

record media =
  m_data :: bytes
  m_mimetype :: str

text \<open>File metadata as a response carries it; a field the response omits is \<open>None\<close>.\<close>

record meta =
  f_id :: str
  f_name :: "str option"
  f_mimeType :: "str option"
  f_modifiedTime :: "str option"
  f_size :: "str option"
  f_parents :: "str list option"

text \<open>The result dict of \<^verbatim>\<open>files().list(...).execute()\<close>.\<close>

record listing =
  files :: "meta list option"
  nextPageToken :: "str option"

text \<open>The requests the service sends, with the keyword arguments it passes.\<close>

datatype call =
    Files_list (q: str) (spaces: "str option") (fields: "str option")
      (pageSize: int) (pageToken: "str option")
  | Files_get (fileId: str) (fields: "str option")
  | Files_get_media (fileId: str)
  | Files_update (fileId: str) (body: "body option") (media_body: "media option")
  | Files_create (body: "body option") (media_body: "media option") (fields: "str option")

text \<open>\<^verbatim>\<open>google.oauth2.credentials.Credentials\<close>: the attributes the service reads.\<close>

record creds =
  valid :: bool
  expired :: bool
  refresh_token :: "str option"
  to_json :: str

datatype service = Build creds

text \<open>
  Every effect of the service, in the order it happens: a read of the environment, a
  request to the provider, a refresh of the credential, an interactive authorization
  (lines 77 to 88, whether or not it succeeds) and a write to the local disk.
\<close>

datatype event =
    Env_get str
  | Request call
  | Creds_refresh
  | Interactive_flow
  | File_write str str

record 's world =
  environ :: "str \<rightharpoonup> str"
  disk :: "str \<rightharpoonup> str"
  remote :: 's
  log :: "event list"

text \<open>
  The third-party libraries and the remote account are parameters of the model: the
  Drive client (one function for each method the service calls, acting on the state
  \<open>'s\<close> of the remote account), the OAuth helpers and the UTF-8 codec. The service is
  verified for every instance; a reference instance for Drive follows below.
\<close>

record 's libs =
  script_dir :: str
  files_list :: "service \<Rightarrow> call \<Rightarrow> 's \<Rightarrow> (exn + listing) \<times> 's"
  files_get :: "service \<Rightarrow> call \<Rightarrow> 's \<Rightarrow> (exn + meta) \<times> 's"
  files_get_media :: "service \<Rightarrow> call \<Rightarrow> 's \<Rightarrow> (exn + bytes) list \<times> 's"
  files_update :: "service \<Rightarrow> call \<Rightarrow> 's \<Rightarrow> (exn + meta) \<times> 's"
  files_create :: "service \<Rightarrow> call \<Rightarrow> 's \<Rightarrow> (exn + meta) \<times> 's"
  from_authorized_user_info :: "str \<Rightarrow> exn + creds"
  from_authorized_user_file :: "str \<Rightarrow> exn + creds"
  refresh :: "creds \<Rightarrow> exn + creds"
  flow_from_client_config :: "str \<Rightarrow> exn + creds"
  flow_from_client_secrets_file :: "str \<Rightarrow> exn + creds"
  encode_utf8 :: "str \<Rightarrow> bytes"
  decode_utf8_replace :: "bytes \<Rightarrow> str"

text \<open>\<^verbatim>\<open>os.environ.get(name)\<close>.\<close>

definition getenv :: "str \<Rightarrow> 's world \<Rightarrow> str option \<times> 's world" where
  "getenv k w = (environ w k, w\<lparr>log := log w @ [Env_get k]\<rparr>)"

text \<open>\<^verbatim>\<open>request.execute()\<close>: the call is logged and the remote account moves on.\<close>

definition execute :: "(call \<Rightarrow> 's \<Rightarrow> 'a \<times> 's) \<Rightarrow> call \<Rightarrow> 's world \<Rightarrow> 'a \<times> 's world" where
  "execute method c w =
     (case method c (remote w) of
        (r, s') \<Rightarrow> (r, w\<lparr>remote := s', log := log w @ [Request c]\<rparr>))"

section \<open>Config\<close>

definition TOKEN_FILE :: "'s libs \<Rightarrow> str" where
  "TOKEN_FILE L = script_dir L @ ''/token.json''"

definition CREDENTIALS_FILE :: "'s libs \<Rightarrow> str" where
  "CREDENTIALS_FILE L = script_dir L @ ''/credentials.json''"

definition PLAYGROUND_PATH :: "str list" where
  "PLAYGROUND_PATH = [''Personal'', ''AI Research'', ''OpenClaw Playground'']"

definition get_api_key :: "'s world \<Rightarrow> (exn + str) \<times> 's world" where
  "get_api_key w =
     (case getenv ''DRIVE_PLAYGROUND_API_KEY'' w of
        (v, w1) \<Rightarrow>
          (let key = strip (or_else v [])
           in if key = []
              then (Inl (RuntimeError ''Set DRIVE_PLAYGROUND_API_KEY in the environment.''), w1)
              else (Inr key, w1)))"

section \<open>Credentials\<close>

definition token_json_invalid :: str where
  "token_json_invalid =
     ''GOOGLE_DRIVE_TOKEN_JSON is set but invalid. Paste the full contents of token.json (from a local OAuth run).''"

definition credentials_json_invalid :: str where
  "credentials_json_invalid =
     ''GOOGLE_DRIVE_CREDENTIALS_JSON is set but invalid. Paste the full contents of credentials.json.''"

definition credentials_not_found :: str where
  "credentials_not_found =
     ''Google OAuth credentials not found. For Railway: set GOOGLE_DRIVE_TOKEN_JSON (full token.json from a local OAuth run). For local first run: save credentials.json here or set GOOGLE_DRIVE_CREDENTIALS_JSON.''"

text \<open>
  Lines 59 to 70 of \<^verbatim>\<open>get_drive_service\<close>: the credential comes from the token blob
  of the environment, else from the token file, else there is none.
\<close>

definition load_creds :: "'s libs \<Rightarrow> str \<Rightarrow> 's world \<Rightarrow> exn + creds option" where
  "load_creds L token_json w =
     (if token_json \<noteq> []
      then (case from_authorized_user_info L token_json of
              Inl e \<Rightarrow> if is_value_error e then Inl (ValueError token_json_invalid) else Inl e
            | Inr c \<Rightarrow> Inr (Some c))
      else (case disk w (TOKEN_FILE L) of
              Some text \<Rightarrow> (case from_authorized_user_file L text of
                              Inl e \<Rightarrow> Inl e
                            | Inr c \<Rightarrow> Inr (Some c))
            | None \<Rightarrow> Inr None))"

text \<open>
  Lines 71 and 72: \<^verbatim>\<open>creds and not creds.valid and creds.expired and creds.refresh_token\<close>.
\<close>

definition wants_refresh :: "creds option \<Rightarrow> bool" where
  "wants_refresh co =
     (case co of
        None \<Rightarrow> False
      | Some c \<Rightarrow> \<not> valid c \<and> expired c \<and> or_else (refresh_token c) [] \<noteq> [])"

definition refresh_creds :: "'s libs \<Rightarrow> creds option \<Rightarrow> 's world \<Rightarrow> (exn + creds option) \<times> 's world" where
  "refresh_creds L co w =
     (case co of
        None \<Rightarrow> (Inr None, w)
      | Some c \<Rightarrow>
          if wants_refresh co
          then (case refresh L c of
                  Inl e \<Rightarrow> (Inl e, w\<lparr>log := log w @ [Creds_refresh]\<rparr>)
                | Inr c' \<Rightarrow> (Inr (Some c'), w\<lparr>log := log w @ [Creds_refresh]\<rparr>))
          else (Inr co, w))"

text \<open>
  Lines 75 to 93: the interactive authorization, from the client-secret blob of the
  environment, else from the client-secret file, else \<^verbatim>\<open>FileNotFoundError\<close>.
\<close>

definition run_flow :: "'s libs \<Rightarrow> 's world \<Rightarrow> (exn + creds) \<times> 's world" where
  "run_flow L w =
     (case getenv ''GOOGLE_APPLICATION_CREDENTIALS'' w of
        (p, w1) \<Rightarrow>
     (case getenv ''GOOGLE_DRIVE_CREDENTIALS_JSON'' w1 of
        (j, w2) \<Rightarrow>
          (let creds_path = or_else p (CREDENTIALS_FILE L);
               credentials_json = strip (or_else j [])
           in if credentials_json \<noteq> []
              then (case flow_from_client_config L credentials_json of
                      Inl e \<Rightarrow>
                        (if is_value_error e then Inl (ValueError credentials_json_invalid) else Inl e,
                         w2\<lparr>log := log w2 @ [Interactive_flow]\<rparr>)
                    | Inr c \<Rightarrow> (Inr c, w2\<lparr>log := log w2 @ [Interactive_flow]\<rparr>))
              else (case (if creds_path \<noteq> [] then disk w2 creds_path else None) of
                      Some text \<Rightarrow>
                        (case flow_from_client_secrets_file L text of
                           Inl e \<Rightarrow> (Inl e, w2\<lparr>log := log w2 @ [Interactive_flow]\<rparr>)
                         | Inr c \<Rightarrow> (Inr c, w2\<lparr>log := log w2 @ [Interactive_flow]\<rparr>))
                    | None \<Rightarrow> (Inl (FileNotFoundError credentials_not_found), w2)))))"

text \<open>
  Lines 94 to 96:
  \<^verbatim>\<open>if not token_json and TOKEN_FILE.exists() is False: f.write(creds.to_json())\<close>.
\<close>

definition save_token :: "'s libs \<Rightarrow> str \<Rightarrow> creds \<Rightarrow> 's world \<Rightarrow> 's world" where
  "save_token L token_json c w =
     (if token_json = [] \<and> disk w (TOKEN_FILE L) = None
      then w\<lparr>disk := (disk w)(TOKEN_FILE L \<mapsto> to_json c),
             log := log w @ [File_write (TOKEN_FILE L) (to_json c)]\<rparr>
      else w)"

text \<open>
  Lines 73 to 96: taken when \<^verbatim>\<open>not creds or not creds.valid\<close>.
\<close>

definition first_time_oauth :: "'s libs \<Rightarrow> str \<Rightarrow> 's world \<Rightarrow> (exn + service) \<times> 's world" where
  "first_time_oauth L token_json w =
     (case run_flow L w of
        (Inl e, w1) \<Rightarrow> (Inl e, w1)
      | (Inr c, w1) \<Rightarrow> (Inr (Build c), save_token L token_json c w1))"

definition get_drive_service :: "'s libs \<Rightarrow> 's world \<Rightarrow> (exn + service) \<times> 's world" where
  "get_drive_service L w =
     (case getenv ''GOOGLE_DRIVE_TOKEN_JSON'' w of
        (v, w1) \<Rightarrow>
          (let token_json = strip (or_else v [])
           in case load_creds L token_json w1 of
                Inl e \<Rightarrow> (Inl e, w1)
              | Inr co \<Rightarrow>
                  (case refresh_creds L co w1 of
                     (Inl e, w2) \<Rightarrow> (Inl e, w2)
                   | (Inr None, w2) \<Rightarrow> first_time_oauth L token_json w2
                   | (Inr (Some c), w2) \<Rightarrow>
                       if \<not> valid c then first_time_oauth L token_json w2
                       else (Inr (Build c), w2))))"

section \<open>Folder resolution\<close>

definition FOLDER_MIME :: str where
  "FOLDER_MIME = ''application/vnd.google-apps.folder''"

text \<open>The f-string of line 110.\<close>

definition folder_query :: "str \<Rightarrow> str \<Rightarrow> str" where
  "folder_query parent_id name =
     sq @ parent_id @ sq @ '' in parents and name = '' @ sq @ name @ sq
       @ '' and mimeType = '' @ sq @ FOLDER_MIME @ sq @ '' and trashed = false''"

text \<open>The f-string of lines 120 and 121.\<close>

definition folder_not_found :: "str \<Rightarrow> str" where
  "folder_not_found name =
     ''Folder not found: '' @ join '' / '' PLAYGROUND_PATH @ ''. Missing after: '' @ name
       @ ''. Create the folder in Drive or set DRIVE_PLAYGROUND_FOLDER_ID to the folder ID.''"

text \<open>\<^verbatim>\<open>result.get("files", [])\<close>.\<close>

definition get_files :: "listing \<Rightarrow> meta list" where
  "get_files result = (case files result of None \<Rightarrow> [] | Some fs \<Rightarrow> fs)"

text \<open>The loop of lines 106 to 123, started at \<open>parent_id\<close> with the names left to walk.\<close>

fun walk :: "'s libs \<Rightarrow> service \<Rightarrow> str \<Rightarrow> str list \<Rightarrow> 's world \<Rightarrow> (exn + str) \<times> 's world" where
  "walk L sv parent_id [] w = (Inr parent_id, w)"
| "walk L sv parent_id (name # names) w =
     (case execute (files_list L sv)
             (Files_list (folder_query parent_id name) (Some ''drive'') (Some ''files(id, name)'') 1 None) w of
        (Inl e, w1) \<Rightarrow> (Inl e, w1)
      | (Inr result, w1) \<Rightarrow>
          (case get_files result of
             [] \<Rightarrow> (Inl (ValueError (folder_not_found name)), w1)
           | f # fs \<Rightarrow> walk L sv (f_id f) names w1))"

definition get_playground_folder_id :: "'s libs \<Rightarrow> service \<Rightarrow> 's world \<Rightarrow> (exn + str) \<times> 's world" where
  "get_playground_folder_id L sv w =
     (case getenv ''DRIVE_PLAYGROUND_FOLDER_ID'' w of
        (v, w1) \<Rightarrow>
          (let folder_id = strip (or_else v [])
           in if folder_id \<noteq> [] then (Inr folder_id, w1)
              else walk L sv ''root'' PLAYGROUND_PATH w1))"

section \<open>The access gate\<close>

definition bearer_of :: "str option \<Rightarrow> str" where
  "bearer_of authorization = removeprefix ''Bearer '' (strip (or_else authorization []))"

definition require_api_key :: "str option \<Rightarrow> str option \<Rightarrow> 's world \<Rightarrow> (exn + unit) \<times> 's world" where
  "require_api_key x_api_key authorization w =
     (case get_api_key w of
        (Inl e, w1) \<Rightarrow> (Inl e, w1)
      | (Inr key, w1) \<Rightarrow>
          (let bearer = bearer_of authorization
           in if or_else x_api_key bearer \<noteq> key
              then (Inl (HTTPException 401 ''Invalid or missing API key''), w1)
              else (Inr (), w1)))"

section \<open>The routes\<close>

text \<open>What a route returns when it does not raise.\<close>

datatype reply =
    Status_ok
  | File_listing "meta list" "str option"
  | Plain_text str
  | Written str str

definition health :: reply where
  "health = Status_ok"

text \<open>The f-string of line 158.\<close>

definition children_query :: "str \<Rightarrow> str" where
  "children_query folder_id = sq @ folder_id @ sq @ '' in parents and trashed = false''"

definition LIST_FIELDS :: str where
  "LIST_FIELDS = ''nextPageToken, files(id, name, mimeType, modifiedTime, size)''"

definition list_files ::
  "'s libs \<Rightarrow> str option \<Rightarrow> str option \<Rightarrow> str option \<Rightarrow> int \<Rightarrow> 's world \<Rightarrow> (exn + reply) \<times> 's world" where
  "list_files L x_api_key authorization page_token page_size w =
     (case require_api_key x_api_key authorization w of
        (Inl e, w1) \<Rightarrow> (Inl e, w1)
      | (Inr u, w1) \<Rightarrow>
     (case get_drive_service L w1 of
        (Inl e, w2) \<Rightarrow> (Inl e, w2)
      | (Inr sv, w2) \<Rightarrow>
     (case get_playground_folder_id L sv w2 of
        (Inl e, w3) \<Rightarrow> (Inl e, w3)
      | (Inr folder_id, w3) \<Rightarrow>
     (case execute (files_list L sv)
             (Files_list (children_query folder_id) (Some ''drive'') (Some LIST_FIELDS)
                page_size (Some (or_else page_token []))) w3 of
        (Inl e, w4) \<Rightarrow> (Inl e, w4)
      | (Inr result, w4) \<Rightarrow>
          (Inr (File_listing (get_files result) (nextPageToken result)), w4)))))"

text \<open>
  The loop of lines 197 and 198 over the outcomes of the successive
  \<^verbatim>\<open>downloader.next_chunk()\<close> calls; the last outcome is the one that reports
  \<^verbatim>\<open>done\<close>.
\<close>

fun next_chunks :: "(exn + bytes) list \<Rightarrow> bytes \<Rightarrow> exn + bytes" where
  "next_chunks [] buf = Inr buf"
| "next_chunks (Inl e # cs) buf = Inl e"
| "next_chunks (Inr d # cs) buf = next_chunks cs (buf @ d)"

definition NOT_A_CHILD :: str where
  "NOT_A_CHILD = ''File is not a direct child of the Playground folder. Use /list to get file IDs.''"

definition read_file ::
  "'s libs \<Rightarrow> str \<Rightarrow> str option \<Rightarrow> str option \<Rightarrow> 's world \<Rightarrow> (exn + reply) \<times> 's world" where
  "read_file L file_id x_api_key authorization w =
     (case require_api_key x_api_key authorization w of
        (Inl e, w1) \<Rightarrow> (Inl e, w1)
      | (Inr u, w1) \<Rightarrow>
     (case get_drive_service L w1 of
        (Inl e, w2) \<Rightarrow> (Inl e, w2)
      | (Inr sv, w2) \<Rightarrow>
     (case get_playground_folder_id L sv w2 of
        (Inl e, w3) \<Rightarrow> (Inl e, w3)
      | (Inr folder_id, w3) \<Rightarrow>
     (case execute (files_get L sv) (Files_get file_id (Some ''id, name, mimeType, parents'')) w3 of
        (Inl e, w4) \<Rightarrow> (Inl e, w4)
      | (Inr metadata, w4) \<Rightarrow>
          (let parents = (case f_parents metadata of None \<Rightarrow> [] | Some ps \<Rightarrow> ps)
           in if folder_id \<notin> set parents
              then (Inl (HTTPException 403 NOT_A_CHILD), w4)
              else (case execute (files_get_media L sv) (Files_get_media file_id) w4 of
                      (chunks, w5) \<Rightarrow>
                        (case next_chunks chunks [] of
                           Inl e \<Rightarrow> (Inl (HTTPException 404 (exn_str e)), w5)
                         | Inr buf \<Rightarrow> (Inr (Plain_text (decode_utf8_replace L buf)), w5))))))))"

record WriteBody =
  name :: str
  content :: str
  mime_type :: str

text \<open>The f-string of line 224.\<close>

definition name_query :: "str \<Rightarrow> str \<Rightarrow> str" where
  "name_query folder_id nm =
     sq @ folder_id @ sq @ '' in parents and name = '' @ sq @ nm @ sq @ '' and trashed = false''"

definition write_file ::
  "'s libs \<Rightarrow> WriteBody \<Rightarrow> str option \<Rightarrow> str option \<Rightarrow> 's world \<Rightarrow> (exn + reply) \<times> 's world" where
  "write_file L b x_api_key authorization w =
     (case require_api_key x_api_key authorization w of
        (Inl e, w1) \<Rightarrow> (Inl e, w1)
      | (Inr u, w1) \<Rightarrow>
     (case get_drive_service L w1 of
        (Inl e, w2) \<Rightarrow> (Inl e, w2)
      | (Inr sv, w2) \<Rightarrow>
     (case get_playground_folder_id L sv w2 of
        (Inl e, w3) \<Rightarrow> (Inl e, w3)
      | (Inr folder_id, w3) \<Rightarrow>
     (case execute (files_list L sv)
             (Files_list (name_query folder_id (name b)) None (Some ''files(id)'') 1 None) w3 of
        (Inl e, w4) \<Rightarrow> (Inl e, w4)
      | (Inr existing, w4) \<Rightarrow>
          (let metadata = [(''name'', JS (name b)), (''mimeType'', JS (mime_type b)),
                           (''parents'', JL [folder_id])];
               media = \<lparr>m_data = encode_utf8 L (content b), m_mimetype = mime_type b\<rparr>
           in case get_files existing of
                f # fs \<Rightarrow>
                  (let file_id = f_id f
                   in case execute (files_update L sv)
                             (Files_update file_id (Some [(''name'', JS (name b))]) None) w4 of
                        (Inl e, w5) \<Rightarrow> (Inl e, w5)
                      | (Inr r1, w5) \<Rightarrow>
                          (case execute (files_update L sv)
                                  (Files_update file_id None (Some media)) w5 of
                             (Inl e, w6) \<Rightarrow> (Inl e, w6)
                           | (Inr r2, w6) \<Rightarrow> (Inr (Written file_id ''updated''), w6)))
              | [] \<Rightarrow>
                  (case execute (files_create L sv)
                          (Files_create (Some metadata) (Some media) (Some ''id'')) w4 of
                     (Inl e, w5) \<Rightarrow> (Inl e, w5)
                   | (Inr created, w5) \<Rightarrow> (Inr (Written (f_id created) ''created''), w5)))))))"

section \<open>The application\<close>

text \<open>
  A request as it reaches the application: the two headers, and the parameters of the
  route. An absent \<^verbatim>\<open>page_size\<close> or \<^verbatim>\<open>mime_type\<close> is \<open>None\<close>.
\<close>

datatype request =
    GET_health
  | GET_list "str option" "str option" "str option" "int option"
  | GET_content str "str option" "str option"
  | POST_write str str "str option" "str option" "str option"

datatype payload =
    Ok reply
  | Detail str
  | Validation_error
  | Internal_server_error

record response =
  status_code :: int
  payload :: payload

text \<open>
  What the framework makes of a route's outcome: a returned value is a 200, an
  \<^verbatim>\<open>HTTPException\<close> is a response with its status and detail, and any other exception,
  for which the application registers no handler, is a 500.
\<close>

fun respond :: "exn + reply \<Rightarrow> response" where
  "respond (Inr r) = \<lparr>status_code = 200, payload = Ok r\<rparr>"
| "respond (Inl (HTTPException s d)) = \<lparr>status_code = s, payload = Detail d\<rparr>"
| "respond (Inl e) = \<lparr>status_code = 500, payload = Internal_server_error\<rparr>"

definition unprocessable :: response where
  "unprocessable = \<lparr>status_code = 422, payload = Validation_error\<rparr>"

text \<open>
  The parameter declarations of the routes are checked before a route's body runs:
  \<^verbatim>\<open>page_size: int = Query(50, ge=1, le=100)\<close> and
  \<^verbatim>\<open>mime_type: str = "text/plain"\<close>.
\<close>

fun app :: "'s libs \<Rightarrow> request \<Rightarrow> 's world \<Rightarrow> response \<times> 's world" where
  "app L GET_health w = (respond (Inr health), w)"
| "app L (GET_list x_api_key authorization page_token None) w =
     (case list_files L x_api_key authorization page_token 50 w of
        (r, w1) \<Rightarrow> (respond r, w1))"
| "app L (GET_list x_api_key authorization page_token (Some page_size)) w =
     (if 1 \<le> page_size \<and> page_size \<le> 100
      then (case list_files L x_api_key authorization page_token page_size w of
              (r, w1) \<Rightarrow> (respond r, w1))
      else (unprocessable, w))"
| "app L (GET_content file_id x_api_key authorization) w =
     (case read_file L file_id x_api_key authorization w of
        (r, w1) \<Rightarrow> (respond r, w1))"
| "app L (POST_write nm text mt x_api_key authorization) w =
     (case write_file L
             \<lparr>name = nm, content = text,
              mime_type = (case mt of None \<Rightarrow> ''text/plain'' | Some t \<Rightarrow> t)\<rparr>
             x_api_key authorization w of
        (r, w1) \<Rightarrow> (respond r, w1))"

text \<open>The process serving a sequence of requests, one after the other.\<close>

fun serve :: "'s libs \<Rightarrow> request list \<Rightarrow> 's world \<Rightarrow> response list \<times> 's world" where
  "serve L [] w = ([], w)"
| "serve L (r # rs) w =
     (case app L r w of
        (x, w1) \<Rightarrow> (case serve L rs w1 of (xs, w2) \<Rightarrow> (x # xs, w2)))"

text \<open>The events a computation added to the log.\<close>

definition new_events :: "'s world \<Rightarrow> 's world \<Rightarrow> event list" where
  "new_events w w' = drop (length (log w)) (log w')"

section \<open>A reference instance of the storage provider\<close>

text \<open>
  The remote account as a list of files, in the order the provider lists them, and
  the five methods acting on it. The search expression of \<^verbatim>\<open>files().list\<close> is read
  by the provider's documented grammar, restricted to what the service sends: terms
  joined by \<^verbatim>\<open>and\<close>; a string literal stands between single quotes, and inside it a
  backslash takes the next character literally. An expression outside the grammar is
  answered with a 400.
\<close>

record drive_file =
  d_id :: str
  d_name :: str
  d_mimeType :: str
  d_parents :: "str list"
  d_trashed :: bool
  d_content :: bytes

type_synonym drive = "drive_file list"

datatype tok = T_str str | T_word str

datatype mode = Gap | Word str | Lit str | Esc str

fun lex :: "mode \<Rightarrow> str \<Rightarrow> tok list option" where
  "lex Gap [] = Some []"
| "lex (Word a) [] = Some [T_word (rev a)]"
| "lex (Lit a) [] = None"
| "lex (Esc a) [] = None"
| "lex Gap (c # cs) =
     (if c = CHR '' '' then lex Gap cs
      else if c = CHR 0x27 then lex (Lit []) cs
      else lex (Word [c]) cs)"
| "lex (Word a) (c # cs) =
     (if c = CHR '' '' then map_option ((#) (T_word (rev a))) (lex Gap cs)
      else if c = CHR 0x27 then map_option ((#) (T_word (rev a))) (lex (Lit []) cs)
      else lex (Word (c # a)) cs)"
| "lex (Lit a) (c # cs) =
     (if c = CHR 0x27 then map_option ((#) (T_str (rev a))) (lex Gap cs)
      else if c = CHR 0x5C then lex (Esc a) cs
      else lex (Lit (c # a)) cs)"
| "lex (Esc a) (c # cs) = lex (Lit (c # a)) cs"

datatype qterm = In_parents str | Name_is str | MimeType_is str | Trashed_is bool

fun parse_term :: "tok \<Rightarrow> tok \<Rightarrow> tok \<Rightarrow> qterm option" where
  "parse_term (T_str p) (T_word i) (T_word f) =
     (if i = ''in'' \<and> f = ''parents'' then Some (In_parents p) else None)"
| "parse_term (T_word f) (T_word e) (T_str v) =
     (if e = ''='' \<and> f = ''name'' then Some (Name_is v)
      else if e = ''='' \<and> f = ''mimeType'' then Some (MimeType_is v)
      else None)"
| "parse_term (T_word f) (T_word e) (T_word v) =
     (if e = ''='' \<and> f = ''trashed'' \<and> v = ''true'' then Some (Trashed_is True)
      else if e = ''='' \<and> f = ''trashed'' \<and> v = ''false'' then Some (Trashed_is False)
      else None)"
| "parse_term a b c = None"

fun parse :: "tok list \<Rightarrow> qterm list option" where
  "parse [a, b, c] = map_option (\<lambda>t. [t]) (parse_term a b c)"
| "parse (a # b # c # d # rest) =
     (if d = T_word ''and''
      then (case parse_term a b c of
              None \<Rightarrow> None
            | Some t \<Rightarrow> map_option ((#) t) (parse rest))
      else None)"
| "parse ts = None"

fun holds :: "drive_file \<Rightarrow> qterm \<Rightarrow> bool" where
  "holds f (In_parents p) = (p \<in> set (d_parents f))"
| "holds f (Name_is n) = (d_name f = n)"
| "holds f (MimeType_is m) = (d_mimeType f = m)"
| "holds f (Trashed_is b) = (d_trashed f = b)"

definition search :: "str \<Rightarrow> drive \<Rightarrow> drive option" where
  "search query s =
     (case lex Gap query of
        None \<Rightarrow> None
      | Some ts \<Rightarrow>
          (case parse ts of
             None \<Rightarrow> None
           | Some terms \<Rightarrow> Some (filter (\<lambda>f. list_all (holds f) terms) s)))"

text \<open>The metadata of a file as a response carries it; the parents are always included.\<close>

definition describe :: "drive_file \<Rightarrow> meta" where
  "describe f =
     \<lparr>f_id = d_id f, f_name = Some (d_name f), f_mimeType = Some (d_mimeType f),
      f_modifiedTime = None, f_size = None, f_parents = Some (d_parents f)\<rparr>"

text \<open>A page token is the number of files already listed, in unary.\<close>

fun drive_list :: "service \<Rightarrow> call \<Rightarrow> drive \<Rightarrow> (exn + listing) \<times> drive" where
  "drive_list sv (Files_list query sp fl n tok) s =
     (case search query s of
        None \<Rightarrow> (Inl (HttpError 400 ''Invalid Value''), s)
      | Some found \<Rightarrow>
          (let start = length (or_else tok []);
               stop = start + nat n
           in (Inr \<lparr>files = Some (map describe (take (nat n) (drop start found))),
                    nextPageToken = (if stop < length found
                                     then Some (replicate stop (CHR ''.'')) else None)\<rparr>, s)))"
| "drive_list sv c s = (Inl (HttpError 400 ''Bad Request''), s)"

fun drive_get :: "service \<Rightarrow> call \<Rightarrow> drive \<Rightarrow> (exn + meta) \<times> drive" where
  "drive_get sv (Files_get i fl) s =
     (case find (\<lambda>f. d_id f = i) s of
        None \<Rightarrow> (Inl (HttpError 404 (''File not found: '' @ i)), s)
      | Some f \<Rightarrow> (Inr (describe f), s))"
| "drive_get sv c s = (Inl (HttpError 400 ''Bad Request''), s)"

fun drive_get_media :: "service \<Rightarrow> call \<Rightarrow> drive \<Rightarrow> (exn + bytes) list \<times> drive" where
  "drive_get_media sv (Files_get_media i) s =
     (case find (\<lambda>f. d_id f = i) s of
        None \<Rightarrow> ([Inl (HttpError 404 (''File not found: '' @ i))], s)
      | Some f \<Rightarrow> ([Inr (d_content f)], s))"
| "drive_get_media sv c s = ([Inl (HttpError 400 ''Bad Request'')], s)"

text \<open>
  An update changes the fields its body names and, with media, the content; the
  parents of a file are not writable through an update.
\<close>

definition patch :: "body option \<Rightarrow> media option \<Rightarrow> drive_file \<Rightarrow> drive_file" where
  "patch b m f =
     (let d = (case b of None \<Rightarrow> [] | Some d \<Rightarrow> d);
          f1 = (case map_of d ''name'' of Some (JS n) \<Rightarrow> f\<lparr>d_name := n\<rparr> | _ \<Rightarrow> f);
          f2 = (case m of
                  None \<Rightarrow> f1
                | Some u \<Rightarrow> f1\<lparr>d_content := m_data u, d_mimeType := m_mimetype u\<rparr>)
      in (case map_of d ''mimeType'' of Some (JS t) \<Rightarrow> f2\<lparr>d_mimeType := t\<rparr> | _ \<Rightarrow> f2))"

fun drive_update :: "service \<Rightarrow> call \<Rightarrow> drive \<Rightarrow> (exn + meta) \<times> drive" where
  "drive_update sv (Files_update i b m) s =
     (case find (\<lambda>f. d_id f = i) s of
        None \<Rightarrow> (Inl (HttpError 404 (''File not found: '' @ i)), s)
      | Some f \<Rightarrow>
          if map_of (case b of None \<Rightarrow> [] | Some d \<Rightarrow> d) ''parents'' \<noteq> None
          then (Inl (HttpError 403 ''The parents field is not directly writable in update requests.''), s)
          else (Inr (describe (patch b m f)),
                map (\<lambda>g. if d_id g = i then patch b m g else g) s))"
| "drive_update sv c s = (Inl (HttpError 400 ''Bad Request''), s)"

text \<open>An identifier that no file of the account has: longer than each of theirs.\<close>

definition fresh_id :: "drive \<Rightarrow> str" where
  "fresh_id s = replicate (Suc (foldr max (map (\<lambda>f. length (d_id f)) s) 0)) (CHR ''0'')"

definition new_file :: "str \<Rightarrow> body option \<Rightarrow> media option \<Rightarrow> drive_file" where
  "new_file i b m =
     (let d = (case b of None \<Rightarrow> [] | Some d \<Rightarrow> d)
      in patch b m
           \<lparr>d_id = i, d_name = ''Untitled'', d_mimeType = ''application/octet-stream'',
            d_parents = (case map_of d ''parents'' of Some (JL ps) \<Rightarrow> ps | _ \<Rightarrow> [''root'']),
            d_trashed = False, d_content = []\<rparr>)"

fun drive_create :: "service \<Rightarrow> call \<Rightarrow> drive \<Rightarrow> (exn + meta) \<times> drive" where
  "drive_create sv (Files_create b m fl) s =
     (let f = new_file (fresh_id s) b m in (Inr (describe f), s @ [f]))"
| "drive_create sv c s = (Inl (HttpError 400 ''Bad Request''), s)"

text \<open>
  The OAuth helpers of the reference instance read a token text literally: the text
  \<open>VALID\<close> is a valid credential, \<open>EXPIRED\<close> an expired one that can be refreshed, any
  other text an expired one that cannot; a flow succeeds on any client secret but the
  empty object.
\<close>

definition token_of_text :: "str \<Rightarrow> exn + creds" where
  "token_of_text t =
     (if t = ''VALID''
      then Inr \<lparr>valid = True, expired = False, refresh_token = Some ''r'', to_json = t\<rparr>
      else if t = ''EXPIRED''
      then Inr \<lparr>valid = False, expired = True, refresh_token = Some ''r'', to_json = t\<rparr>
      else if t = ''{''
      then Inl (JSONDecodeError ''Expecting property name'')
      else Inr \<lparr>valid = False, expired = True, refresh_token = None, to_json = t\<rparr>)"

definition flow_of_text :: "str \<Rightarrow> exn + creds" where
  "flow_of_text t =
     (if t = ''{}'' then Inl (ValueError ''Client secrets must be for a web or installed app.'')
      else Inr \<lparr>valid = True, expired = False, refresh_token = Some ''r'', to_json = ''VALID''\<rparr>)"

definition drive_libs :: "drive libs" where
  "drive_libs =
     \<lparr>script_dir = ''/app'',
      files_list = drive_list, files_get = drive_get, files_get_media = drive_get_media,
      files_update = drive_update, files_create = drive_create,
      from_authorized_user_info = token_of_text,
      from_authorized_user_file = token_of_text,
      refresh = (\<lambda>c. Inr (c\<lparr>valid := True, expired := False, to_json := ''VALID''\<rparr>)),
      flow_from_client_config = flow_of_text,
      flow_from_client_secrets_file = flow_of_text,
      encode_utf8 = (\<lambda>t. t), decode_utf8_replace = (\<lambda>t. t)\<rparr>"

section \<open>Auxiliary notions for the properties\<close>

text \<open>The headers of a request to a route behind the access gate.\<close>

fun headers_of :: "request \<Rightarrow> (str option \<times> str option) option" where
  "headers_of GET_health = None"
| "headers_of (GET_list x_api_key authorization page_token page_size) = Some (x_api_key, authorization)"
| "headers_of (GET_content file_id x_api_key authorization) = Some (x_api_key, authorization)"
| "headers_of (POST_write nm text mt x_api_key authorization) = Some (x_api_key, authorization)"

text \<open>Whether the parameters of a request satisfy the declarations of its route.\<close>

fun passes_validation :: "request \<Rightarrow> bool" where
  "passes_validation (GET_list x_api_key authorization page_token (Some page_size)) =
     (1 \<le> page_size \<and> page_size \<le> 100)"
| "passes_validation r = True"

fun is_request :: "event \<Rightarrow> bool" where
  "is_request (Request c) = True"
| "is_request e = False"

fun is_download :: "event \<Rightarrow> bool" where
  "is_download (Request (Files_get_media i)) = True"
| "is_download e = False"

text \<open>The lookup of one folder of the path, as line 109 to 114 send it.\<close>

fun is_folder_lookup :: "event \<Rightarrow> bool" where
  "is_folder_lookup (Request (Files_list query sp fl n tok)) =
     (sp = Some ''drive'' \<and> fl = Some ''files(id, name)'' \<and> n = 1 \<and> tok = None)"
| "is_folder_lookup e = False"

text \<open>
  The name of the first step of the walk that the provider answers with no folder;
  \<open>None\<close> when every step finds one, or when the provider raises before.
\<close>

fun missing_step :: "'s libs \<Rightarrow> service \<Rightarrow> str \<Rightarrow> str list \<Rightarrow> 's world \<Rightarrow> str option" where
  "missing_step L sv parent_id [] w = None"
| "missing_step L sv parent_id (nm # names) w =
     (case execute (files_list L sv)
             (Files_list (folder_query parent_id nm) (Some ''drive'') (Some ''files(id, name)'') 1 None) w of
        (Inl e, w1) \<Rightarrow> None
      | (Inr result, w1) \<Rightarrow>
          (case get_files result of
             [] \<Rightarrow> Some nm
           | f # fs \<Rightarrow> missing_step L sv (f_id f) names w1))"

text \<open>The \<^verbatim>\<open>parents\<close> field of the body of an update or a create, if it has one.\<close>

fun parents_sent :: "call \<Rightarrow> jv option" where
  "parents_sent (Files_update i b m) = map_of (case b of None \<Rightarrow> [] | Some d \<Rightarrow> d) ''parents''"
| "parents_sent (Files_create b m fl) = map_of (case b of None \<Rightarrow> [] | Some d \<Rightarrow> d) ''parents''"
| "parents_sent c = None"

text \<open>
  The three lines every route behind the gate starts with (lines 155 to 157, 182 to
  184 and 217 to 219): the gate, the client, the folder.
\<close>

definition enter :: "'s libs \<Rightarrow> str option \<Rightarrow> str option \<Rightarrow> 's world \<Rightarrow> (exn + service \<times> str) \<times> 's world" where
  "enter L x_api_key authorization w =
     (case require_api_key x_api_key authorization w of
        (Inl e, w1) \<Rightarrow> (Inl e, w1)
      | (Inr u, w1) \<Rightarrow>
     (case get_drive_service L w1 of
        (Inl e, w2) \<Rightarrow> (Inl e, w2)
      | (Inr sv, w2) \<Rightarrow>
     (case get_playground_folder_id L sv w2 of
        (Inl e, w3) \<Rightarrow> (Inl e, w3)
      | (Inr folder_id, w3) \<Rightarrow> (Inr (sv, folder_id), w3))))"

text \<open>The effects of obtaining the client, and those of resolving the folder.\<close>

fun is_oauth_event :: "event \<Rightarrow> bool" where
  "is_oauth_event (Env_get k) =
     (k \<in> set [''GOOGLE_DRIVE_TOKEN_JSON'', ''GOOGLE_APPLICATION_CREDENTIALS'',
                ''GOOGLE_DRIVE_CREDENTIALS_JSON''])"
| "is_oauth_event (Request c) = False"
| "is_oauth_event e = True"

fun is_resolution_event :: "event \<Rightarrow> bool" where
  "is_resolution_event (Env_get k) = (k = ''DRIVE_PLAYGROUND_FOLDER_ID'')"
| "is_resolution_event e = is_folder_lookup e"

text \<open>
  \<open>emits Q w w'\<close>: the log of \<open>w'\<close> extends the log of \<open>w\<close>, by events that all
  satisfy \<open>Q\<close>.
\<close>

definition emits :: "(event \<Rightarrow> bool) \<Rightarrow> 's world \<Rightarrow> 's world \<Rightarrow> bool" where
  "emits Q w w' \<longleftrightarrow>
     take (length (log w)) (log w') = log w \<and> list_all Q (new_events w w')"

text \<open>A string without a single quote and without a backslash.\<close>

definition plain :: "str \<Rightarrow> bool" where
  "plain s = list_all (\<lambda>c. c \<noteq> CHR 0x27 \<and> c \<noteq> CHR 0x5C) s"

subsection \<open>Concrete worlds\<close>

definition folder :: "str \<Rightarrow> str \<Rightarrow> str \<Rightarrow> drive_file" where
  "folder i n p =
     \<lparr>d_id = i, d_name = n, d_mimeType = FOLDER_MIME, d_parents = [p],
      d_trashed = False, d_content = []\<rparr>"

definition text_file :: "str \<Rightarrow> str \<Rightarrow> str \<Rightarrow> str \<Rightarrow> drive_file" where
  "text_file i n p t =
     \<lparr>d_id = i, d_name = n, d_mimeType = ''text/plain'', d_parents = [p],
      d_trashed = False, d_content = t\<rparr>"

text \<open>The credential a successful authorization of the reference instance yields.\<close>

definition valid_creds :: creds where
  "valid_creds = \<lparr>valid = True, expired = False, refresh_token = Some ''r'', to_json = ''VALID''\<rparr>"

text \<open>An account with the playground folder, one file in it and one file outside it.\<close>

definition demo_drive :: drive where
  "demo_drive =
     [folder ''d1'' ''Personal'' ''root'', folder ''d2'' ''AI Research'' ''d1'',
      folder ''PG'' ''OpenClaw Playground'' ''d2'', text_file ''f1'' ''a'' ''PG'' ''hi'',
      text_file ''x9'' ''private.txt'' ''root'' ''keep out'']"

text \<open>A file name with single quotes in it: \<^verbatim>\<open>a' and name = 'a\<close>.\<close>

definition quoted_name :: str where
  "quoted_name = ''a'' @ sq @ '' and name = '' @ sq @ ''a''"

text \<open>A deployment with the secret and a token blob; the folder is found by its path.\<close>

definition demo_world :: "drive world" where
  "demo_world =
     \<lparr>environ = [''DRIVE_PLAYGROUND_API_KEY'' \<mapsto> ''secret'', ''GOOGLE_DRIVE_TOKEN_JSON'' \<mapsto> ''VALID''],
      disk = Map.empty, remote = demo_drive, log = []\<rparr>"

text \<open>The same deployment with the folder identifier configured.\<close>

definition pinned_world :: "drive world" where
  "pinned_world =
     \<lparr>environ = [''DRIVE_PLAYGROUND_API_KEY'' \<mapsto> ''secret'', ''GOOGLE_DRIVE_TOKEN_JSON'' \<mapsto> ''VALID'',
                 ''DRIVE_PLAYGROUND_FOLDER_ID'' \<mapsto> ''PG''],
      disk = Map.empty, remote = demo_drive, log = []\<rparr>"

text \<open>A deployment that sets nothing in the environment.\<close>

definition bare_world :: "drive world" where
  "bare_world = \<lparr>environ = Map.empty, disk = Map.empty, remote = demo_drive, log = []\<rparr>"

text \<open>
  A local run: a client-secret file, and either no token file yet or a token file
  whose token has expired and cannot be refreshed.
\<close>

definition first_run_world :: "drive world" where
  "first_run_world =
     \<lparr>environ = Map.empty, disk = [''/app/credentials.json'' \<mapsto> ''{installed}''],
      remote = demo_drive, log = []\<rparr>"

definition stale_token_world :: "drive world" where
  "stale_token_world =
     \<lparr>environ = Map.empty,
      disk = [''/app/credentials.json'' \<mapsto> ''{installed}'', ''/app/token.json'' \<mapsto> ''STALE''],
      remote = demo_drive, log = []\<rparr>"

section \<open>Properties\<close>

subsection \<open>The log only grows\<close>

lemma emits_iff: "emits Q w w' \<longleftrightarrow> (\<exists>evs. log w' = log w @ evs \<and> (\<forall>e\<in>set evs. Q e))"
proof
  assume "emits Q w w'"
  then have t: "take (length (log w)) (log w') = log w"
    and q: "list_all Q (drop (length (log w)) (log w'))"
    by (simp_all add: emits_def new_events_def)
  have "log w' = log w @ drop (length (log w)) (log w')"
    using t append_take_drop_id [of "length (log w)" "log w'"] by simp
  with q show "\<exists>evs. log w' = log w @ evs \<and> (\<forall>e\<in>set evs. Q e)"
    by (auto simp: list_all_iff)
next
  assume "\<exists>evs. log w' = log w @ evs \<and> (\<forall>e\<in>set evs. Q e)"
  then show "emits Q w w'"
    by (auto simp: emits_def new_events_def list_all_iff)
qed

lemma emits_refl: "emits Q w w"
  by (simp add: emits_iff)

lemma emits_trans: "emits Q w w1 \<Longrightarrow> emits Q w1 w2 \<Longrightarrow> emits Q w w2"
  by (auto simp: emits_iff)

subsection \<open>Footprints\<close>

lemma execute_log: "execute m c w = (r, w') \<Longrightarrow> log w' = log w @ [Request c] \<and> environ w' = environ w \<and> disk w' = disk w"
  by (auto simp: execute_def split: prod.splits)

lemma refresh_creds_emits:
  "refresh_creds L co w = (r, w') \<Longrightarrow> emits is_oauth_event w w' \<and> disk w' = disk w \<and> remote w' = remote w \<and> environ w' = environ w"
  by (auto simp: refresh_creds_def emits_iff split: option.splits if_splits sum.splits)

lemma run_flow_emits:
  "run_flow L w = (r, w') \<Longrightarrow> emits is_oauth_event w w' \<and> disk w' = disk w \<and> remote w' = remote w \<and> environ w' = environ w"
  by (auto simp: run_flow_def getenv_def Let_def emits_iff split: option.splits if_splits sum.splits)

lemma save_token_emits:
  "emits is_oauth_event w (save_token L t c w) \<and> remote (save_token L t c w) = remote w \<and> environ (save_token L t c w) = environ w"
  by (auto simp: save_token_def emits_iff)

lemma first_time_oauth_emits:
  assumes "first_time_oauth L t w = (r, w')"
  shows "emits is_oauth_event w w' \<and> remote w' = remote w \<and> environ w' = environ w"
proof (cases "run_flow L w")
  case (Pair x w1)
  note rf = run_flow_emits [OF Pair]
  show ?thesis
  proof (cases x)
    case (Inl e)
    with Pair assms rf show ?thesis by (simp add: first_time_oauth_def)
  next
    case (Inr c)
    with Pair assms have "w' = save_token L t c w1" by (simp add: first_time_oauth_def)
    with rf save_token_emits [of w1 L t c] show ?thesis
      by (auto intro: emits_trans)
  qed
qed

lemma get_drive_service_emits:
  assumes "get_drive_service L w = (r, w')"
  shows "emits is_oauth_event w w' \<and> remote w' = remote w \<and> environ w' = environ w"
proof -
  define w1 where "w1 = w\<lparr>log := log w @ [Env_get ''GOOGLE_DRIVE_TOKEN_JSON'']\<rparr>"
  have e1: "emits is_oauth_event w w1" "remote w1 = remote w" "environ w1 = environ w"
    by (simp_all add: w1_def emits_iff)
  define t where "t = strip (or_else (environ w ''GOOGLE_DRIVE_TOKEN_JSON'') [])"
  have unf: "get_drive_service L w =
     (case load_creds L t w1 of
                Inl e \<Rightarrow> (Inl e, w1)
              | Inr co \<Rightarrow>
                  (case refresh_creds L co w1 of
                     (Inl e, w2) \<Rightarrow> (Inl e, w2)
                   | (Inr None, w2) \<Rightarrow> first_time_oauth L t w2
                   | (Inr (Some c), w2) \<Rightarrow>
                       if \<not> valid c then first_time_oauth L t w2
                       else (Inr (Build c), w2)))"
    unfolding w1_def t_def by (simp add: get_drive_service_def getenv_def Let_def)
  show ?thesis
  proof (cases "load_creds L t w1")
    case (Inl e)
    with unf assms e1 show ?thesis by simp
  next
    case (Inr co)
    obtain x w2 where rc: "refresh_creds L co w1 = (x, w2)" by (cases "refresh_creds L co w1")
    note e2 = refresh_creds_emits [OF rc]
    have e12: "emits is_oauth_event w w2" "remote w2 = remote w" "environ w2 = environ w"
      using e1 e2 by (auto intro: emits_trans)
    have ft: "first_time_oauth L t w2 = (r, w') \<Longrightarrow> ?thesis"
      using first_time_oauth_emits [of L t w2 r w'] e12 by (auto intro: emits_trans)
    from unf assms Inr rc e12 ft show ?thesis
      by (auto split: sum.splits option.splits if_splits)
  qed
qed

lemma walk_emits:
  "walk L sv p names w = (r, w') \<Longrightarrow> emits is_resolution_event w w' \<and> environ w' = environ w \<and> disk w' = disk w"
proof (induction names arbitrary: p w)
  case Nil
  then show ?case by (simp add: emits_refl)
next
  case (Cons nm names)
  let ?c = "Files_list (folder_query p nm) (Some ''drive'') (Some ''files(id, name)'') 1 None"
  obtain x w1 where ex: "execute (files_list L sv) ?c w = (x, w1)"
    by (cases "execute (files_list L sv) ?c w")
  from execute_log [OF ex] have e1: "emits is_resolution_event w w1" "environ w1 = environ w" "disk w1 = disk w"
    by (simp_all add: emits_iff)
  show ?case
  proof (cases x)
    case (Inl e)
    with Cons.prems ex e1 show ?thesis by simp
  next
    case (Inr result)
    show ?thesis
    proof (cases "get_files result")
      case Nil
      with Cons.prems ex Inr e1 show ?thesis by simp
    next
      case (Cons f fs)
      with Cons.prems ex Inr have "walk L sv (f_id f) names w1 = (r, w')" by simp
      from Cons.IH [OF this] e1 show ?thesis by (auto intro: emits_trans)
    qed
  qed
qed

lemma get_playground_folder_id_emits:
  assumes "get_playground_folder_id L sv w = (r, w')"
  shows "emits is_resolution_event w w' \<and> environ w' = environ w \<and> disk w' = disk w"
proof -
  define w1 where "w1 = w\<lparr>log := log w @ [Env_get ''DRIVE_PLAYGROUND_FOLDER_ID'']\<rparr>"
  have e1: "emits is_resolution_event w w1" "environ w1 = environ w" "disk w1 = disk w"
    by (simp_all add: w1_def emits_iff)
  from assms have "(r, w') = (Inr (strip (or_else (environ w ''DRIVE_PLAYGROUND_FOLDER_ID'') [])), w1)
      \<or> walk L sv ''root'' PLAYGROUND_PATH w1 = (r, w')"
    by (auto simp: get_playground_folder_id_def getenv_def Let_def w1_def split: if_splits)
  then show ?thesis
    using e1 walk_emits [of L sv "''root''" PLAYGROUND_PATH w1 r w']
    by (auto intro: emits_trans)
qed


subsection \<open>The access gate\<close>

lemma or_else_candidates: "x \<noteq> Some key \<Longrightarrow> b \<noteq> key \<Longrightarrow> or_else x b \<noteq> key"
  by (auto simp: or_else_def split: option.splits)

lemma get_api_key_world:
  "snd (get_api_key w) = w\<lparr>log := log w @ [Env_get ''DRIVE_PLAYGROUND_API_KEY'']\<rparr>"
  by (simp add: get_api_key_def getenv_def Let_def)

lemma get_api_key_Inr:
  "get_api_key w = (Inr key, w1) \<Longrightarrow>
     key = strip (or_else (environ w ''DRIVE_PLAYGROUND_API_KEY'') []) \<and> key \<noteq> []
     \<and> w1 = w\<lparr>log := log w @ [Env_get ''DRIVE_PLAYGROUND_API_KEY'']\<rparr>"
  by (auto simp: get_api_key_def getenv_def Let_def split: if_splits)

lemma require_api_key_world:
  "snd (require_api_key x a w) = w\<lparr>log := log w @ [Env_get ''DRIVE_PLAYGROUND_API_KEY'']\<rparr>"
  using get_api_key_world [of w]
  by (auto simp: require_api_key_def Let_def split: prod.splits sum.splits)

lemma require_api_key_result:
  "get_api_key w = (Inr key, w1) \<Longrightarrow>
   require_api_key x a w =
     (if or_else x (bearer_of a) = key then Inr ()
      else Inl (HTTPException 401 ''Invalid or missing API key''), w1)"
  by (simp add: require_api_key_def Let_def)

lemma require_api_key_unconfigured:
  "strip (or_else (environ w ''DRIVE_PLAYGROUND_API_KEY'') []) = [] \<Longrightarrow>
   require_api_key x a w =
     (Inl (RuntimeError ''Set DRIVE_PLAYGROUND_API_KEY in the environment.''),
      w\<lparr>log := log w @ [Env_get ''DRIVE_PLAYGROUND_API_KEY'']\<rparr>)"
  by (simp add: require_api_key_def get_api_key_def getenv_def Let_def)

lemma gate_closed:
  assumes "require_api_key x a w = (Inl e, w1)"
  shows "list_files L x a t n w = (Inl e, w1)"
    and "read_file L i x a w = (Inl e, w1)"
    and "write_file L b x a w = (Inl e, w1)"
  using assms by (simp_all add: list_files_def read_file_def write_file_def)

lemma app_gate_closed:
  assumes "require_api_key x a w = (Inl e, w1)"
      and "headers_of req = Some (x, a)"
      and "passes_validation req"
  shows "app L req w = (respond (Inl e), w1)"
  using assms(2,3) gate_closed [OF assms(1)]
  by (cases req rule: passes_validation.cases) auto

lemma last_strip: "strip s \<noteq> [] \<Longrightarrow> \<not> isspace (last (strip s))"
proof -
  assume ne: "strip s \<noteq> []"
  define u where "u = dropWhile isspace (rev (dropWhile isspace s))"
  have s: "strip s = rev u" by (simp add: strip_def u_def)
  with ne have "u \<noteq> []" by simp
  then have "\<not> isspace (hd u)" unfolding u_def by (rule hd_dropWhile)
  moreover have "last (rev u) = hd u" using \<open>u \<noteq> []\<close> by (simp add: last_rev)
  ultimately show ?thesis using s by simp
qed

lemma strip_fixed:
  assumes "k \<noteq> []" "\<not> isspace (last k)" "\<not> isspace c"
  shows "strip (c # cs @ k) = c # cs @ k"
proof -
  have "rev k \<noteq> []" "hd (rev k) = last k" using assms(1) by (simp_all add: hd_rev)
  then obtain y ys where r: "rev k = y # ys" "\<not> isspace y"
    using assms(2) by (cases "rev k") auto
  have "dropWhile isspace (rev (c # cs @ k)) = rev (c # cs @ k)"
    using r by simp
  then show ?thesis using assms(3) by (simp add: strip_def)
qed

lemma bearer_of_key:
  assumes "key = strip v" "key \<noteq> []"
  shows "bearer_of (Some (''Bearer '' @ key)) = key"
proof -
  have "\<not> isspace (last key)" using assms last_strip [of v] by simp
  then have "strip (CHR ''B'' # ''earer '' @ key) = CHR ''B'' # ''earer '' @ key"
    using assms(2) by (intro strip_fixed) (simp_all add: isspace_def)
  then show ?thesis
    by (simp add: bearer_of_def or_else_def removeprefix_def)
qed

lemma bearer_of_None: "bearer_of None = []"
  by (simp add: bearer_of_def or_else_def strip_def removeprefix_def)

subsection \<open>Entering a route\<close>

lemma list_files_enter:
  "list_files L x a t n w =
     (case enter L x a w of
        (Inl e, w3) \<Rightarrow> (Inl e, w3)
      | (Inr (sv, folder_id), w3) \<Rightarrow>
          (case execute (files_list L sv)
                  (Files_list (children_query folder_id) (Some ''drive'') (Some LIST_FIELDS)
                     n (Some (or_else t []))) w3 of
             (Inl e, w4) \<Rightarrow> (Inl e, w4)
           | (Inr result, w4) \<Rightarrow>
               (Inr (File_listing (get_files result) (nextPageToken result)), w4)))"
  by (simp add: list_files_def enter_def split: prod.splits sum.splits)

lemma enter_emits:
  assumes "enter L x a w = (r, w3)"
  shows "\<exists>evs. log w3 = log w @ Env_get ''DRIVE_PLAYGROUND_API_KEY'' # evs
           \<and> (\<forall>e\<in>set evs. is_oauth_event e \<or> is_resolution_event e)"
proof -
  obtain g w1 where g: "require_api_key x a w = (g, w1)" by (cases "require_api_key x a w")
  have w1: "log w1 = log w @ [Env_get ''DRIVE_PLAYGROUND_API_KEY'']"
    using require_api_key_world [of x a w] g by simp
  show ?thesis
  proof (cases g)
    case (Inl e)
    with assms g w1 show ?thesis by (simp add: enter_def)
  next
    case (Inr u)
    obtain s w2 where s: "get_drive_service L w1 = (s, w2)" by (cases "get_drive_service L w1")
    from get_drive_service_emits [OF s] obtain evs2
      where w2: "log w2 = log w1 @ evs2" "\<forall>e\<in>set evs2. is_oauth_event e"
      by (auto simp: emits_iff)
    show ?thesis
    proof (cases s)
      case (Inl e)
      with assms g Inr s w1 w2 show ?thesis by (simp add: enter_def)
    next
      case sv: (Inr sv)
      obtain f w3' where f: "get_playground_folder_id L sv w2 = (f, w3')"
        by (cases "get_playground_folder_id L sv w2")
      from get_playground_folder_id_emits [OF f] obtain evs3
        where w3: "log w3' = log w2 @ evs3" "\<forall>e\<in>set evs3. is_resolution_event e"
        by (auto simp: emits_iff)
      from assms g Inr s sv f have "w3 = w3'"
        by (auto simp: enter_def split: sum.splits)
      with w1 w2 w3 show ?thesis by auto
    qed
  qed
qed

lemma enter_stages:
  assumes "require_api_key x a w = (Inr (), w1)"
      and "get_drive_service L w1 = (Inr sv, w2)"
      and "get_playground_folder_id L sv w2 = (r, w3)"
  shows "enter L x a w = (map_sum (\<lambda>e. e) (\<lambda>i. (sv, i)) r, w3)"
  using assms by (cases r) (simp_all add: enter_def)

subsection \<open>The walk depends on the remote account only\<close>

lemma execute_congr:
  "remote w = remote w' \<Longrightarrow>
   fst (execute m c w) = fst (execute m c w') \<and>
   remote (snd (execute m c w)) = remote (snd (execute m c w'))"
  by (simp add: execute_def split: prod.splits)

lemma walk_congr:
  "remote w = remote w' \<Longrightarrow>
   fst (walk L sv p names w) = fst (walk L sv p names w') \<and>
   remote (snd (walk L sv p names w)) = remote (snd (walk L sv p names w'))"
proof (induction names arbitrary: p w w')
  case Nil
  then show ?case by simp
next
  case (Cons nm names)
  let ?c = "Files_list (folder_query p nm) (Some ''drive'') (Some ''files(id, name)'') 1 None"
  obtain x w1 where a: "execute (files_list L sv) ?c w = (x, w1)"
    by (cases "execute (files_list L sv) ?c w")
  obtain x' w1' where b: "execute (files_list L sv) ?c w' = (x', w1')"
    by (cases "execute (files_list L sv) ?c w'")
  from execute_congr [OF Cons.prems, of "files_list L sv" ?c] a b
  have eq: "x' = x" "remote w1 = remote w1'" by simp_all
  show ?case
  proof (cases x)
    case (Inl e)
    with a b eq show ?thesis by simp
  next
    case (Inr result)
    show ?thesis
    proof (cases "get_files result")
      case Nil
      with a b eq Inr show ?thesis by simp
    next
      case (Cons f fs)
      with a b eq Inr Cons.IH [OF eq(2), of "f_id f"] show ?thesis by simp
    qed
  qed
qed

lemma missing_step_congr:
  "remote w = remote w' \<Longrightarrow> missing_step L sv p names w = missing_step L sv p names w'"
proof (induction names arbitrary: p w w')
  case Nil
  then show ?case by simp
next
  case (Cons nm names)
  let ?c = "Files_list (folder_query p nm) (Some ''drive'') (Some ''files(id, name)'') 1 None"
  obtain x w1 where a: "execute (files_list L sv) ?c w = (x, w1)"
    by (cases "execute (files_list L sv) ?c w")
  obtain x' w1' where b: "execute (files_list L sv) ?c w' = (x', w1')"
    by (cases "execute (files_list L sv) ?c w'")
  from execute_congr [OF Cons.prems, of "files_list L sv" ?c] a b
  have eq: "x' = x" "remote w1 = remote w1'" by simp_all
  show ?case
  proof (cases x)
    case (Inl e)
    with a b eq show ?thesis by simp
  next
    case (Inr result)
    show ?thesis
    proof (cases "get_files result")
      case Nil
      with a b eq Inr show ?thesis by simp
    next
      case (Cons f fs)
      with a b eq Inr Cons.IH [OF eq(2), of "f_id f"] show ?thesis by simp
    qed
  qed
qed

lemma walk_missing_step:
  "missing_step L sv p names w = Some nm \<Longrightarrow>
   fst (walk L sv p names w) = Inl (ValueError (folder_not_found nm)) \<and> nm \<in> set names"
proof (induction names arbitrary: p w)
  case Nil
  then show ?case by simp
next
  case (Cons n names)
  then show ?case
    by (auto split: prod.splits sum.splits list.splits)
qed

lemma folder_not_found_text:
  "folder_not_found nm =
     ''Folder not found: Personal / AI Research / OpenClaw Playground. Missing after: '' @ nm
       @ ''. Create the folder in Drive or set DRIVE_PLAYGROUND_FOLDER_ID to the folder ID.''"
  by (simp add: folder_not_found_def PLAYGROUND_PATH_def)

lemma get_playground_folder_id_unset:
  "strip (or_else (environ w ''DRIVE_PLAYGROUND_FOLDER_ID'') []) = [] \<Longrightarrow>
   get_playground_folder_id L sv w =
     walk L sv ''root'' PLAYGROUND_PATH (w\<lparr>log := log w @ [Env_get ''DRIVE_PLAYGROUND_FOLDER_ID'']\<rparr>)"
  by (simp add: get_playground_folder_id_def getenv_def Let_def)

lemma get_playground_folder_id_set:
  "strip (or_else (environ w ''DRIVE_PLAYGROUND_FOLDER_ID'') []) \<noteq> [] \<Longrightarrow>
   get_playground_folder_id L sv w =
     (Inr (strip (or_else (environ w ''DRIVE_PLAYGROUND_FOLDER_ID'') [])),
      w\<lparr>log := log w @ [Env_get ''DRIVE_PLAYGROUND_FOLDER_ID'']\<rparr>)"
  by (simp add: get_playground_folder_id_def getenv_def Let_def)

lemma get_playground_folder_id_congr:
  assumes "remote w = remote w'" "environ w = environ w'"
  shows "fst (get_playground_folder_id L sv w) = fst (get_playground_folder_id L sv w') \<and>
         remote (snd (get_playground_folder_id L sv w)) = remote (snd (get_playground_folder_id L sv w'))"
proof (cases "strip (or_else (environ w ''DRIVE_PLAYGROUND_FOLDER_ID'') []) = []")
  case True
  then have "strip (or_else (environ w' ''DRIVE_PLAYGROUND_FOLDER_ID'') []) = []"
    using assms(2) by simp
  with True show ?thesis
    using walk_congr [of "w\<lparr>log := log w @ [Env_get ''DRIVE_PLAYGROUND_FOLDER_ID'']\<rparr>"
        "w'\<lparr>log := log w' @ [Env_get ''DRIVE_PLAYGROUND_FOLDER_ID'']\<rparr>" L sv "''root''" PLAYGROUND_PATH]
      assms(1)
    by (simp add: get_playground_folder_id_unset)
next
  case False
  then have "strip (or_else (environ w' ''DRIVE_PLAYGROUND_FOLDER_ID'') []) \<noteq> []"
    using assms(2) by simp
  with False show ?thesis
    using assms by (simp add: get_playground_folder_id_set)
qed

subsection \<open>Unfolding for concrete worlds\<close>

lemmas world_defs = demo_world_def pinned_world_def bare_world_def first_run_world_def
  stale_token_world_def demo_drive_def folder_def text_file_def

lemmas python_defs = strip_def or_else_def removeprefix_def isspace_def sq_def bearer_of_def

lemmas service_defs = getenv_def execute_def get_api_key_def require_api_key_def
  get_drive_service_def load_creds_def refresh_creds_def wants_refresh_def run_flow_def
  save_token_def first_time_oauth_def get_playground_folder_id_def folder_query_def
  folder_not_found_def get_files_def PLAYGROUND_PATH_def FOLDER_MIME_def
  TOKEN_FILE_def CREDENTIALS_FILE_def list_files_def read_file_def write_file_def
  children_query_def name_query_def LIST_FIELDS_def NOT_A_CHILD_def health_def unprocessable_def

lemmas drive_defs = drive_libs_def token_of_text_def flow_of_text_def search_def describe_def
  patch_def fresh_id_def new_file_def

subsection \<open>Routes after the entry\<close>

lemma read_file_enter:
  "read_file L i x a w =
     (case enter L x a w of
        (Inl e, w3) \<Rightarrow> (Inl e, w3)
      | (Inr (sv, folder_id), w3) \<Rightarrow>
     (case execute (files_get L sv) (Files_get i (Some ''id, name, mimeType, parents'')) w3 of
        (Inl e, w4) \<Rightarrow> (Inl e, w4)
      | (Inr metadata, w4) \<Rightarrow>
          (let parents = (case f_parents metadata of None \<Rightarrow> [] | Some ps \<Rightarrow> ps)
           in if folder_id \<notin> set parents
              then (Inl (HTTPException 403 NOT_A_CHILD), w4)
              else (case execute (files_get_media L sv) (Files_get_media i) w4 of
                      (chunks, w5) \<Rightarrow>
                        (case next_chunks chunks [] of
                           Inl e \<Rightarrow> (Inl (HTTPException 404 (exn_str e)), w5)
                         | Inr buf \<Rightarrow> (Inr (Plain_text (decode_utf8_replace L buf)), w5))))))"
  by (simp add: read_file_def enter_def split: prod.splits sum.splits)

lemma write_file_enter:
  "write_file L b x a w =
     (case enter L x a w of
        (Inl e, w3) \<Rightarrow> (Inl e, w3)
      | (Inr (sv, folder_id), w3) \<Rightarrow>
     (case execute (files_list L sv)
             (Files_list (name_query folder_id (name b)) None (Some ''files(id)'') 1 None) w3 of
        (Inl e, w4) \<Rightarrow> (Inl e, w4)
      | (Inr existing, w4) \<Rightarrow>
          (let metadata = [(''name'', JS (name b)), (''mimeType'', JS (mime_type b)),
                           (''parents'', JL [folder_id])];
               media = \<lparr>m_data = encode_utf8 L (content b), m_mimetype = mime_type b\<rparr>
           in case get_files existing of
                f # fs \<Rightarrow>
                  (let file_id = f_id f
                   in case execute (files_update L sv)
                             (Files_update file_id (Some [(''name'', JS (name b))]) None) w4 of
                        (Inl e, w5) \<Rightarrow> (Inl e, w5)
                      | (Inr r1, w5) \<Rightarrow>
                          (case execute (files_update L sv)
                                  (Files_update file_id None (Some media)) w5 of
                             (Inl e, w6) \<Rightarrow> (Inl e, w6)
                           | (Inr r2, w6) \<Rightarrow> (Inr (Written file_id ''updated''), w6)))
              | [] \<Rightarrow>
                  (case execute (files_create L sv)
                          (Files_create (Some metadata) (Some media) (Some ''id'')) w4 of
                     (Inl e, w5) \<Rightarrow> (Inl e, w5)
                   | (Inr created, w5) \<Rightarrow> (Inr (Written (f_id created) ''created''), w5)))))"
  by (simp add: write_file_def enter_def split: prod.splits sum.splits)

text \<open>After the entry a route only sends requests.\<close>

lemma list_files_tail:
  assumes "enter L x a w = (g, w3)" "list_files L x a t n w = (r, w')"
  shows "\<exists>evs. log w' = log w3 @ evs \<and>
           (\<forall>e\<in>set evs. \<exists>query. e = Request (Files_list query (Some ''drive'') (Some LIST_FIELDS) n (Some (or_else t []))))"
  using assms
  by (auto simp: list_files_enter dest!: execute_log split: prod.splits sum.splits)

lemma read_file_tail:
  assumes "enter L x a w = (g, w3)" "read_file L i x a w = (r, w')"
  shows "\<exists>evs. log w' = log w3 @ evs \<and> (\<forall>e\<in>set evs. is_request e)"
  using assms
  by (auto simp: read_file_enter Let_def dest!: execute_log split: prod.splits sum.splits if_splits)

lemma write_file_tail:
  assumes "enter L x a w = (g, w3)" "write_file L b x a w = (r, w')"
  shows "\<exists>evs. log w' = log w3 @ evs \<and> (\<forall>e\<in>set evs. is_request e)"
  using assms
  by (auto simp: write_file_enter Let_def dest!: execute_log split: prod.splits sum.splits list.splits)

lemma app_log:
  assumes "headers_of req = Some (x, a)" "passes_validation req" "app L req w = (r, w')"
  shows "\<exists>evs. log w' = log w @ Env_get ''DRIVE_PLAYGROUND_API_KEY'' # evs
           \<and> (\<forall>e\<in>set evs. is_oauth_event e \<or> is_resolution_event e \<or> is_request e)"
proof -
  obtain g w3 where en: "enter L x a w = (g, w3)" by (cases "enter L x a w")
  from enter_emits [OF en] obtain evs
    where w3: "log w3 = log w @ Env_get ''DRIVE_PLAYGROUND_API_KEY'' # evs"
      "\<forall>e\<in>set evs. is_oauth_event e \<or> is_resolution_event e" by blast
  have "\<exists>evs'. log w' = log w3 @ evs' \<and> (\<forall>e\<in>set evs'. is_request e)"
  proof (cases req)
    case GET_health
    with assms show ?thesis by simp
  next
    case (GET_list x' a' t ps)
    with assms obtain n r' where "list_files L x a t n w = (r', w')"
      by (cases ps) (auto split: prod.splits if_splits)
    from list_files_tail [OF en this] show ?thesis by fastforce
  next
    case (GET_content i x' a')
    with assms obtain r' where "read_file L i x a w = (r', w')"
      by (auto split: prod.splits)
    from read_file_tail [OF en this] show ?thesis .
  next
    case (POST_write nm tx mt x' a')
    with assms obtain r' b where "write_file L b x a w = (r', w')"
      by (auto split: prod.splits)
    from write_file_tail [OF en this] show ?thesis .
  qed
  then obtain evs' where "log w' = log w3 @ evs'" "\<forall>e\<in>set evs'. is_request e" by blast
  with w3 show ?thesis by auto
qed

subsection \<open>Further facts about the routes\<close>

lemma resolution_not_download: "is_resolution_event e \<Longrightarrow> \<not> is_download e"
  by (cases e rule: is_folder_lookup.cases) simp_all

lemma oauth_not_download: "is_oauth_event e \<Longrightarrow> \<not> is_download e"
  by (cases e rule: is_download.cases) simp_all

lemma app_enter_failed:
  assumes "enter L x a w = (Inl e, w3)"
      and "headers_of req = Some (x, a)"
      and "passes_validation req"
  shows "app L req w = (respond (Inl e), w3)"
  using assms
  by (cases req rule: passes_validation.cases)
     (auto simp: list_files_enter read_file_enter write_file_enter)

lemma first_time_oauth_disk:
  assumes "first_time_oauth L t w = (Inr (Build c), w')"
  shows "disk w' = (if t = [] \<and> disk w (TOKEN_FILE L) = None
                    then (disk w)(TOKEN_FILE L \<mapsto> to_json c) else disk w)
       \<and> Interactive_flow \<in> set (new_events w w')"
proof -
  obtain x w1 where rf: "run_flow L w = (x, w1)" by (cases "run_flow L w")
  with assms have x: "x = Inr c" and w': "w' = save_token L t c w1"
    by (auto simp: first_time_oauth_def split: sum.splits)
  from run_flow_emits [OF rf] have d: "disk w1 = disk w" by simp
  have "\<exists>evs. log w1 = log w @ evs \<and> Interactive_flow \<in> set evs"
    using rf x
    by (auto simp: run_flow_def getenv_def Let_def split: if_splits sum.splits option.splits)
  then obtain evs where l1: "log w1 = log w @ evs" "Interactive_flow \<in> set evs" by blast
  have "\<exists>evs'. log w' = log w1 @ evs'"
    by (simp add: w' save_token_def)
  then obtain evs' where "log w' = log w1 @ evs'" by blast
  with l1 have "Interactive_flow \<in> set (new_events w w')"
    by (simp add: new_events_def)
  moreover have "disk w' = (if t = [] \<and> disk w (TOKEN_FILE L) = None
                    then (disk w)(TOKEN_FILE L \<mapsto> to_json c) else disk w)"
    using d by (simp add: w' save_token_def)
  ultimately show ?thesis by blast
qed

lemma refresh_creds_no_flow:
  "refresh_creds L co w = (r, w') \<Longrightarrow>
     \<exists>evs. log w' = log w @ evs \<and> Interactive_flow \<notin> set evs"
  by (auto simp: refresh_creds_def split: option.splits if_splits sum.splits)

lemma get_drive_service_cases:
  assumes "get_drive_service L w = (r, w')"
  shows "(\<exists>w2 evs. log w2 = log w @ evs \<and> disk w2 = disk w \<and>
            first_time_oauth L (strip (or_else (environ w ''GOOGLE_DRIVE_TOKEN_JSON'') [])) w2 = (r, w'))
       \<or> (Interactive_flow \<notin> set (new_events w w') \<and> disk w' = disk w)"
proof -
  define w1 where "w1 = w\<lparr>log := log w @ [Env_get ''GOOGLE_DRIVE_TOKEN_JSON'']\<rparr>"
  define t where "t = strip (or_else (environ w ''GOOGLE_DRIVE_TOKEN_JSON'') [])"
  have unf: "get_drive_service L w =
     (case load_creds L t w1 of
                Inl e \<Rightarrow> (Inl e, w1)
              | Inr co \<Rightarrow>
                  (case refresh_creds L co w1 of
                     (Inl e, w2) \<Rightarrow> (Inl e, w2)
                   | (Inr None, w2) \<Rightarrow> first_time_oauth L t w2
                   | (Inr (Some c), w2) \<Rightarrow>
                       if \<not> valid c then first_time_oauth L t w2
                       else (Inr (Build c), w2)))"
    unfolding w1_def t_def by (simp add: get_drive_service_def getenv_def Let_def)
  have n1: "new_events w w1 = [Env_get ''GOOGLE_DRIVE_TOKEN_JSON'']" "disk w1 = disk w"
    by (simp_all add: w1_def new_events_def)
  show ?thesis
  proof (cases "load_creds L t w1")
    case (Inl e)
    with unf assms n1 show ?thesis by simp
  next
    case (Inr co)
    obtain x w2 where rc: "refresh_creds L co w1 = (x, w2)" by (cases "refresh_creds L co w1")
    from refresh_creds_no_flow [OF rc] obtain evs
      where l2: "log w2 = log w1 @ evs" "Interactive_flow \<notin> set evs" by blast
    from refresh_creds_emits [OF rc] have d2: "disk w2 = disk w" using n1 by simp
    have l2': "log w2 = log w @ Env_get ''GOOGLE_DRIVE_TOKEN_JSON'' # evs"
      using l2 by (simp add: w1_def)
    then have quiet: "Interactive_flow \<notin> set (new_events w w2)"
      using l2(2) by (simp add: new_events_def)
    from unf assms Inr rc
    have "first_time_oauth L t w2 = (r, w') \<or> w' = w2"
      by (auto split: sum.splits option.splits if_splits)
    then show ?thesis
    proof
      assume "first_time_oauth L t w2 = (r, w')"
      with l2' d2 show ?thesis unfolding t_def by blast
    next
      assume "w' = w2"
      with quiet d2 show ?thesis by simp
    qed
  qed
qed

subsection \<open>Writing\<close>

lemma patch_frame: "d_id (patch b m f) = d_id f \<and> d_parents (patch b m f) = d_parents f"
  by (auto simp: patch_def Let_def split: option.splits jv.splits)

lemma drive_update_frame:
  "map (\<lambda>f. (d_id f, d_parents f)) (snd (drive_update sv c s)) = map (\<lambda>f. (d_id f, d_parents f)) s"
  by (cases "(sv, c, s)" rule: drive_update.cases)
     (auto simp: patch_frame split: option.splits)

lemma resolution_request: "is_resolution_event (Request c) \<Longrightarrow> \<exists>query sp fl n tok. c = Files_list query sp fl n tok"
  by (cases c) simp_all

lemma write_file_after_query:
  assumes "enter L x a w = (Inr (sv, folder_id), w3)"
      and "execute (files_list L sv)
             (Files_list (name_query folder_id (name b)) None (Some ''files(id)'') 1 None) w3
           = (Inr existing, w4)"
      and "write_file L b x a w = (r, w')"
  shows "(get_files existing = [] \<and>
          log w' = log w4 @ [Request (Files_create
              (Some [(''name'', JS (name b)), (''mimeType'', JS (mime_type b)), (''parents'', JL [folder_id])])
              (Some \<lparr>m_data = encode_utf8 L (content b), m_mimetype = mime_type b\<rparr>) (Some ''id''))])
       \<or> (get_files existing \<noteq> [] \<and>
          ((log w' = log w4 @ [Request (Files_update (f_id (hd (get_files existing))) (Some [(''name'', JS (name b))]) None)]
            \<and> remote w' = snd (files_update L sv
                  (Files_update (f_id (hd (get_files existing))) (Some [(''name'', JS (name b))]) None) (remote w4)))
          \<or> (log w' = log w4 @ [Request (Files_update (f_id (hd (get_files existing))) (Some [(''name'', JS (name b))]) None),
                 Request (Files_update (f_id (hd (get_files existing))) None
                    (Some \<lparr>m_data = encode_utf8 L (content b), m_mimetype = mime_type b\<rparr>))]
            \<and> remote w' = snd (files_update L sv
                  (Files_update (f_id (hd (get_files existing))) None
                    (Some \<lparr>m_data = encode_utf8 L (content b), m_mimetype = mime_type b\<rparr>))
                  (snd (files_update L sv
                    (Files_update (f_id (hd (get_files existing))) (Some [(''name'', JS (name b))]) None) (remote w4)))))))"
  using assms(3) unfolding write_file_enter assms(1)
  by (simp add: assms(2) Let_def split: list.splits)
     (auto simp: execute_def split: prod.splits sum.splits)

lemma lex_Lit_plain:
  "plain s \<Longrightarrow>
   lex (Lit a) (s @ CHR 0x27 # rest) = map_option ((#) (T_str (rev a @ s))) (lex Gap rest)"
  by (induction s arbitrary: a) (simp_all add: plain_def)

lemma search_name_query:
  "plain folder_id \<Longrightarrow> plain nm \<Longrightarrow>
   search (name_query folder_id nm) s =
     Some (filter (\<lambda>f. folder_id \<in> set (d_parents f) \<and> d_name f = nm \<and> \<not> d_trashed f) s)"
  by (simp add: search_def name_query_def sq_def lex_Lit_plain)

lemma fresh_id_fresh: "fresh_id s \<notin> set (map d_id s)"
proof
  assume "fresh_id s \<in> set (map d_id s)"
  then obtain f where f: "f \<in> set s" "d_id f = fresh_id s" by auto
  have "length (d_id g) \<le> foldr max (map (\<lambda>f. length (d_id f)) s) 0" if "g \<in> set s" for g
    using that by (induction s) auto
  from this [OF f(1)] have "length (d_id f) < length (fresh_id s)"
    by (simp add: fresh_id_def)
  with f(2) show False by simp
qed

lemma find_id_present: "f \<in> set s \<Longrightarrow> find (\<lambda>g. d_id g = d_id f) s \<noteq> None"
  by (auto simp: find_None_iff)

lemma find_id_patched:
  assumes "f \<in> set s"
  shows "find (\<lambda>g. d_id g = d_id f) (map (\<lambda>g. if d_id g = i then patch b m g else g) s) \<noteq> None"
proof -
  let ?h = "\<lambda>g. if d_id g = i then patch b m g else g"
  have "?h f \<in> set (map ?h s)" using assms by (simp only: set_map) (rule imageI)
  moreover have "d_id (?h f) = d_id f" by (simp add: patch_frame)
  ultimately show ?thesis unfolding find_None_iff by blast
qed

lemma drive_update_present:
  assumes "f \<in> set s" "map_of (case b of None \<Rightarrow> [] | Some d \<Rightarrow> d) ''parents'' = None"
  shows "\<exists>m'. drive_update sv (Files_update (d_id f) b m) s =
           (Inr m', map (\<lambda>g. if d_id g = d_id f then patch b m g else g) s)"
  using find_id_present [OF assms(1)] assms(2) by (auto split: option.splits)

lemma new_file_written:
  "new_file i (Some [(''name'', JS n), (''mimeType'', JS t), (''parents'', JL [p])])
       (Some \<lparr>m_data = d, m_mimetype = t\<rparr>) =
     \<lparr>d_id = i, d_name = n, d_mimeType = t, d_parents = [p], d_trashed = False, d_content = d\<rparr>"
  by (simp add: new_file_def patch_def Let_def)

lemma write_file_plain_name:
  assumes "require_api_key x_api_key authorization w = (Inr (), w1)"
      and "get_drive_service drive_libs w1 = (Inr sv, w2)"
      and "get_playground_folder_id drive_libs sv w2 = (Inr folder_id, w3)"
      and "plain folder_id" "plain (name b)"
      and "found = filter (\<lambda>f. folder_id \<in> set (d_parents f) \<and> d_name f = name b \<and> \<not> d_trashed f) (remote w3)"
  shows "(found \<noteq> [] \<longrightarrow>
            fst (write_file drive_libs b x_api_key authorization w) = Inr (Written (d_id (hd found)) ''updated''))
       \<and> (found = [] \<longrightarrow>
            fst (write_file drive_libs b x_api_key authorization w) = Inr (Written (fresh_id (remote w3)) ''created'')
            \<and> fresh_id (remote w3) \<notin> set (map d_id (remote w3))
            \<and> remote (snd (write_file drive_libs b x_api_key authorization w)) =
                remote w3 @ [\<lparr>d_id = fresh_id (remote w3), d_name = name b, d_mimeType = mime_type b,
                               d_parents = [folder_id], d_trashed = False, d_content = content b\<rparr>])"
proof -
  have en: "enter drive_libs x_api_key authorization w = (Inr (sv, folder_id), w3)"
    using enter_stages [OF assms(1,2,3)] by simp
  define w4 where "w4 = w3\<lparr>log := log w3 @
     [Request (Files_list (name_query folder_id (name b)) None (Some ''files(id)'') 1 None)]\<rparr>"
  have q: "execute (files_list drive_libs sv)
             (Files_list (name_query folder_id (name b)) None (Some ''files(id)'') 1 None) w3
           = (Inr \<lparr>files = Some (map describe (take 1 found)),
                   nextPageToken = (if 1 < length found then Some ''.'' else None)\<rparr>, w4)"
    using assms(4,5,6)
    by (simp add: execute_def drive_libs_def search_name_query or_else_def w4_def Let_def)
  have r4: "remote w4 = remote w3" by (simp add: w4_def)
  show ?thesis
  proof (cases found)
    case Nil
    then show ?thesis
      using fresh_id_fresh [of "remote w3"]
      apply (simp only: write_file_enter en prod.case sum.case q)
      apply (simp add: get_files_def execute_def drive_libs_def r4
            new_file_written describe_def Let_def)
      done
  next
    case (Cons f fs)
    then have "f \<in> set (remote w3)"
      using assms(6) by (metis filter_is_subset list.set_intros(1) subsetD)
    then have f4: "f \<in> set (remote w4)" using r4 by simp
    from drive_update_present [OF f4, of "Some [(''name'', JS (name b))]" sv None]
    obtain m1 where u1: "drive_update sv (Files_update (d_id f) (Some [(''name'', JS (name b))]) None) (remote w4) =
           (Inr m1, map (\<lambda>g. if d_id g = d_id f then patch (Some [(''name'', JS (name b))]) None g else g) (remote w4))"
      by auto
    define s5 where "s5 = map (\<lambda>g. if d_id g = d_id f then patch (Some [(''name'', JS (name b))]) None g else g) (remote w4)"
    have "find (\<lambda>g. d_id g = d_id f) s5 \<noteq> None"
      unfolding s5_def using f4 by (rule find_id_patched)
    then obtain m2 s6 where u2: "drive_update sv (Files_update (d_id f) None
           (Some \<lparr>m_data = content b, m_mimetype = mime_type b\<rparr>)) s5 = (Inr m2, s6)"
      by (auto split: option.splits)
    show ?thesis
      using Cons u1 u2
      apply (simp only: write_file_enter en prod.case sum.case q)
      apply (simp add: get_files_def execute_def drive_libs_def s5_def
            describe_def Let_def del: drive_update.simps)
      done
  qed
qed

section \<open>The claims\<close>

subsection \<open>C5\<close>

text \<open>
  Claim C5, as stated: the configured secret is read once from the environment, and
  its absence is a fatal configuration error raised before any request is served, not
  an error raised per request. The code does otherwise: \<open>get_api_key\<close> is called only
  from \<open>require_api_key\<close>, which every gated route calls in its body. In a world
  without the secret the process serves \<^verbatim>\<open>/health\<close>, and each gated request reads the
  variable again and fails on its own with the unhandled \<^verbatim>\<open>RuntimeError\<close> (a 500).
\<close>

theorem api_key_read_on_each_request_counterexample:
  "serve drive_libs [GET_health, GET_list None None None None, GET_content ''f1'' None None] bare_world =
     ([\<lparr>status_code = 200, payload = Ok Status_ok\<rparr>,
       \<lparr>status_code = 500, payload = Internal_server_error\<rparr>,
       \<lparr>status_code = 500, payload = Internal_server_error\<rparr>],
      bare_world\<lparr>log := [Env_get ''DRIVE_PLAYGROUND_API_KEY'', Env_get ''DRIVE_PLAYGROUND_API_KEY'']\<rparr>)"
  by (simp add: world_defs python_defs service_defs Let_def)


text \<open>
  Claim C5, amended: the secret is read from the environment on every request to a
  gated route that passes validation, exactly once per request and as the request's
  first effect; when it is absent or blank that request fails with the unhandled
  \<^verbatim>\<open>RuntimeError\<close> (a 500) and has no other effect; \<^verbatim>\<open>/health\<close> is served without
  reading anything.
\<close>

theorem api_key_read_on_each_request:
  "app L GET_health w = (\<lparr>status_code = 200, payload = Ok Status_ok\<rparr>, w)
   \<and> (headers_of req \<noteq> None \<and> passes_validation req \<longrightarrow>
        take 1 (new_events w (snd (app L req w))) = [Env_get ''DRIVE_PLAYGROUND_API_KEY'']
        \<and> Env_get ''DRIVE_PLAYGROUND_API_KEY'' \<notin> set (drop 1 (new_events w (snd (app L req w)))))
   \<and> (headers_of req \<noteq> None \<and> passes_validation req
        \<and> strip (or_else (environ w ''DRIVE_PLAYGROUND_API_KEY'') []) = [] \<longrightarrow>
        app L req w =
          (\<lparr>status_code = 500, payload = Internal_server_error\<rparr>,
           w\<lparr>log := log w @ [Env_get ''DRIVE_PLAYGROUND_API_KEY'']\<rparr>))"
proof (intro conjI impI)
  show "app L GET_health w = (\<lparr>status_code = 200, payload = Ok Status_ok\<rparr>, w)"
    by (simp add: health_def)
next
  assume h: "headers_of req \<noteq> None \<and> passes_validation req"
  then obtain x a where xa: "headers_of req = Some (x, a)" by auto
  obtain r w' where ap: "app L req w = (r, w')" by (cases "app L req w")
  from app_log [OF xa _ ap] h obtain evs
    where l: "log w' = log w @ Env_get ''DRIVE_PLAYGROUND_API_KEY'' # evs"
      "\<forall>e\<in>set evs. is_oauth_event e \<or> is_resolution_event e \<or> is_request e" by blast
  have n: "new_events w w' = Env_get ''DRIVE_PLAYGROUND_API_KEY'' # evs"
    using l(1) by (simp add: new_events_def)
  show "take 1 (new_events w (snd (app L req w))) = [Env_get ''DRIVE_PLAYGROUND_API_KEY'']"
    using ap n by simp
  show "Env_get ''DRIVE_PLAYGROUND_API_KEY'' \<notin> set (drop 1 (new_events w (snd (app L req w))))"
    using ap n l(2) by auto
next
  assume h: "headers_of req \<noteq> None \<and> passes_validation req
        \<and> strip (or_else (environ w ''DRIVE_PLAYGROUND_API_KEY'') []) = []"
  then obtain x a where xa: "headers_of req = Some (x, a)" by auto
  from h have "require_api_key x a w =
     (Inl (RuntimeError ''Set DRIVE_PLAYGROUND_API_KEY in the environment.''),
      w\<lparr>log := log w @ [Env_get ''DRIVE_PLAYGROUND_API_KEY'']\<rparr>)"
    by (intro require_api_key_unconfigured) simp
  from app_gate_closed [OF this xa] h
  show "app L req w =
          (\<lparr>status_code = 500, payload = Internal_server_error\<rparr>,
           w\<lparr>log := log w @ [Env_get ''DRIVE_PLAYGROUND_API_KEY'']\<rparr>)"
    by simp
qed

theorem api_key_read_on_each_request_witness:
  "headers_of (GET_list None None None None) \<noteq> None
   \<and> passes_validation (GET_list None None None None)
   \<and> strip (or_else (environ bare_world ''DRIVE_PLAYGROUND_API_KEY'') []) = []
   \<and> app drive_libs (GET_list None None None None) bare_world =
       (\<lparr>status_code = 500, payload = Internal_server_error\<rparr>,
        bare_world\<lparr>log := [Env_get ''DRIVE_PLAYGROUND_API_KEY'']\<rparr>)"
  using api_key_read_on_each_request [of drive_libs bare_world "GET_list None None None None"]
  by (simp add: bare_world_def strip_def or_else_def)


subsection \<open>C6\<close>

text \<open>
  Claim C6, as stated: a candidate supplied by either header is accepted when it
  equals the configured secret; in particular a request whose bearer header carries
  the secret is authorized. The code compares \<^verbatim>\<open>x_api_key or bearer\<close>: a non-empty
  \<^verbatim>\<open>X-Api-Key\<close> hides the bearer header, so a request with the right bearer secret and
  another \<^verbatim>\<open>X-Api-Key\<close> is rejected.
\<close>

theorem api_key_candidate_counterexample:
  "fst (get_api_key pinned_world) = Inr ''secret''
   \<and> bearer_of (Some ''Bearer secret'') = ''secret''
   \<and> fst (require_api_key (Some ''stale'') (Some ''Bearer secret'') pinned_world) =
       Inl (HTTPException 401 ''Invalid or missing API key'')"
  by (simp add: world_defs python_defs service_defs Let_def)

text \<open>
  Claim C6, amended: with a secret configured, the candidate is the \<^verbatim>\<open>X-Api-Key\<close>
  value when that header is present and not empty, and otherwise the
  \<^verbatim>\<open>Authorization\<close> value stripped of surrounding whitespace and of one leading
  \<^verbatim>\<open>Bearer \<close>; the request is authorized exactly when the candidate equals the
  configured secret. In particular a request whose \<^verbatim>\<open>X-Api-Key\<close> carries the secret is
  authorized, a request whose bearer header carries the secret is authorized when
  \<^verbatim>\<open>X-Api-Key\<close> is absent or empty, and a request with both headers absent supplies
  the empty candidate and fails with 401.
\<close>

theorem api_key_candidate:
  assumes "get_api_key w = (Inr key, w1)"
  shows "require_api_key x_api_key authorization w =
           (if or_else x_api_key (bearer_of authorization) = key then Inr ()
            else Inl (HTTPException 401 ''Invalid or missing API key''), w1)
       \<and> fst (require_api_key (Some key) authorization w) = Inr ()
       \<and> (or_else x_api_key [] = [] \<longrightarrow>
            fst (require_api_key x_api_key (Some (''Bearer '' @ key)) w) = Inr ())
       \<and> fst (require_api_key None None w) = Inl (HTTPException 401 ''Invalid or missing API key'')"
proof -
  note k = get_api_key_Inr [OF assms]
  note r = require_api_key_result [OF assms]
  have ne: "key \<noteq> []" using k by blast
  have b: "bearer_of (Some (''Bearer '' @ key)) = key"
    using k bearer_of_key [of key "or_else (environ w ''DRIVE_PLAYGROUND_API_KEY'') []"]
    by blast
  have c1: "require_api_key x_api_key authorization w =
           (if or_else x_api_key (bearer_of authorization) = key then Inr ()
            else Inl (HTTPException 401 ''Invalid or missing API key''), w1)"
    by (rule r)
  have c2: "fst (require_api_key (Some key) authorization w) = Inr ()"
    using ne by (simp add: r or_else_def)
  have c3: "fst (require_api_key x_api_key (Some (''Bearer '' @ key)) w) = Inr ()"
    if "or_else x_api_key [] = []"
  proof -
    have o: "or_else x_api_key key = key"
      using that by (auto simp: or_else_def split: option.splits if_splits)
    have "fst (require_api_key x_api_key (Some (''Bearer '' @ key)) w) =
            (if or_else x_api_key (bearer_of (Some (''Bearer '' @ key))) = key then Inr ()
             else Inl (HTTPException 401 ''Invalid or missing API key''))"
      by (simp only: r fst_conv)
    then show ?thesis unfolding b o by simp
  qed
  have c4: "fst (require_api_key None None w) = Inl (HTTPException 401 ''Invalid or missing API key'')"
    using ne by (simp add: r bearer_of_None or_else_def)
  show ?thesis using c1 c2 c3 c4 by blast
qed

theorem api_key_candidate_witness:
  "get_api_key pinned_world =
     (Inr ''secret'', pinned_world\<lparr>log := [Env_get ''DRIVE_PLAYGROUND_API_KEY'']\<rparr>)
   \<and> or_else None [] = []
   \<and> fst (require_api_key None (Some ''Bearer secret'') pinned_world) = Inr ()"
proof -
  have k: "get_api_key pinned_world =
     (Inr ''secret'', pinned_world\<lparr>log := [Env_get ''DRIVE_PLAYGROUND_API_KEY'']\<rparr>)"
    by (simp add: world_defs python_defs service_defs Let_def)
  show ?thesis
    using k api_key_candidate [OF k, of None None] by (simp add: or_else_def)
qed

subsection \<open>C2\<close>

text \<open>
  Claim C2, as stated: every request to a gated route that does not supply the
  configured secret is answered with 401, and no provider call is made. The
  declaration \<^verbatim>\<open>page_size: int = Query(50, ge=1, le=100)\<close> is checked before the body
  of \<^verbatim>\<open>list_files\<close> runs, and the gate is called in that body: a request without the
  secret and with \<^verbatim>\<open>page_size=0\<close> is answered with 422.
\<close>

theorem unauthorized_request_counterexample:
  "fst (get_api_key demo_world) = Inr ''secret''
   \<and> headers_of (GET_list None None None (Some 0)) = Some (None, None)
   \<and> bearer_of None \<noteq> ''secret''
   \<and> app drive_libs (GET_list None None None (Some 0)) demo_world =
       (\<lparr>status_code = 422, payload = Validation_error\<rparr>, demo_world)"
  by (simp add: world_defs python_defs service_defs Let_def)

text \<open>
  Claim C2, amended: with a secret configured, a request to \<^verbatim>\<open>/list\<close>,
  \<^verbatim>\<open>/files/{file_id}/content\<close> or \<^verbatim>\<open>/write\<close> that supplies the secret neither in
  \<^verbatim>\<open>X-Api-Key\<close> nor in \<^verbatim>\<open>Authorization\<close> is answered with 401 when its parameters pass
  validation, and with 422 when they do not; in both cases no call to the storage
  provider is made and no client is built: the only effect is the read of the secret,
  and there is none at all on a 422.
\<close>

theorem unauthorized_request:
  assumes "get_api_key w = (Inr key, w1)"
      and "headers_of req = Some (x_api_key, authorization)"
      and "x_api_key \<noteq> Some key"
      and "bearer_of authorization \<noteq> key"
  shows "app L req w =
           (if passes_validation req
            then (\<lparr>status_code = 401, payload = Detail ''Invalid or missing API key''\<rparr>,
                  w\<lparr>log := log w @ [Env_get ''DRIVE_PLAYGROUND_API_KEY'']\<rparr>)
            else (unprocessable, w))"
proof (cases "passes_validation req")
  case True
  have w1: "w1 = w\<lparr>log := log w @ [Env_get ''DRIVE_PLAYGROUND_API_KEY'']\<rparr>"
    using get_api_key_Inr [OF assms(1)] by simp
  have "or_else x_api_key (bearer_of authorization) \<noteq> key"
    using assms(3,4) by (rule or_else_candidates)
  then have closed: "require_api_key x_api_key authorization w =
      (Inl (HTTPException 401 ''Invalid or missing API key''), w1)"
    using require_api_key_result [OF assms(1)] by simp
  show ?thesis
    using app_gate_closed [OF closed assms(2) True] True w1 by simp
next
  case False
  then show ?thesis
    by (cases req rule: passes_validation.cases) auto
qed

theorem unauthorized_request_witness:
  "get_api_key demo_world =
     (Inr ''secret'', demo_world\<lparr>log := [Env_get ''DRIVE_PLAYGROUND_API_KEY'']\<rparr>)
   \<and> headers_of (POST_write ''a'' ''x'' None (Some ''guess'') (Some ''Bearer guess'')) =
       Some (Some ''guess'', Some ''Bearer guess'')
   \<and> Some ''guess'' \<noteq> Some ''secret''
   \<and> bearer_of (Some ''Bearer guess'') \<noteq> ''secret''
   \<and> app drive_libs (POST_write ''a'' ''x'' None (Some ''guess'') (Some ''Bearer guess'')) demo_world =
       (\<lparr>status_code = 401, payload = Detail ''Invalid or missing API key''\<rparr>,
        demo_world\<lparr>log := [Env_get ''DRIVE_PLAYGROUND_API_KEY'']\<rparr>)"
proof -
  have k: "get_api_key demo_world =
     (Inr ''secret'', demo_world\<lparr>log := [Env_get ''DRIVE_PLAYGROUND_API_KEY'']\<rparr>)"
    by (simp add: world_defs python_defs service_defs Let_def)
  have b: "bearer_of (Some ''Bearer guess'') \<noteq> ''secret''"
    by (simp add: python_defs)
  show ?thesis
    using k b unauthorized_request [OF k, of "POST_write ''a'' ''x'' None (Some ''guess'') (Some ''Bearer guess'')"
        "Some ''guess''" "Some ''Bearer guess''" drive_libs]
    by (simp add: demo_world_def)
qed

subsection \<open>C8\<close>

text \<open>
  Claim C8: every \<^verbatim>\<open>/list\<close> request with \<^verbatim>\<open>page_size\<close> outside [1,100] is rejected by
  request validation before any storage-provider call is made (the world is left as it
  was: nothing is read, built or sent); a request with \<^verbatim>\<open>page_size\<close> in [1,100]
  proceeds to the route with that value, and one without the parameter proceeds with
  50; the listing request the route sends carries that page size.
\<close>

theorem page_size_validated:
  "(page_size < 1 \<or> 100 < page_size \<longrightarrow>
      app L (GET_list x_api_key authorization page_token (Some page_size)) w = (unprocessable, w))
   \<and> (1 \<le> page_size \<and> page_size \<le> 100 \<longrightarrow>
      app L (GET_list x_api_key authorization page_token (Some page_size)) w =
        (respond (fst (list_files L x_api_key authorization page_token page_size w)),
         snd (list_files L x_api_key authorization page_token page_size w)))
   \<and> app L (GET_list x_api_key authorization page_token None) w =
        (respond (fst (list_files L x_api_key authorization page_token 50 w)),
         snd (list_files L x_api_key authorization page_token 50 w))
   \<and> (\<forall>query sp n tok.
        Request (Files_list query sp (Some LIST_FIELDS) n tok)
          \<in> set (new_events w (snd (list_files L x_api_key authorization page_token page_size w)))
        \<longrightarrow> n = page_size)"
proof (intro conjI impI allI)
  assume "page_size < 1 \<or> 100 < page_size"
  then show "app L (GET_list x_api_key authorization page_token (Some page_size)) w = (unprocessable, w)"
    by auto
next
  assume "1 \<le> page_size \<and> page_size \<le> 100"
  then show "app L (GET_list x_api_key authorization page_token (Some page_size)) w =
        (respond (fst (list_files L x_api_key authorization page_token page_size w)),
         snd (list_files L x_api_key authorization page_token page_size w))"
    by (simp split: prod.splits)
next
  show "app L (GET_list x_api_key authorization page_token None) w =
        (respond (fst (list_files L x_api_key authorization page_token 50 w)),
         snd (list_files L x_api_key authorization page_token 50 w))"
    by (simp split: prod.splits)
next
  fix query sp n tok
  assume m: "Request (Files_list query sp (Some LIST_FIELDS) n tok)
          \<in> set (new_events w (snd (list_files L x_api_key authorization page_token page_size w)))"
  obtain r w' where lf: "list_files L x_api_key authorization page_token page_size w = (r, w')"
    by (cases "list_files L x_api_key authorization page_token page_size w")
  obtain g w3 where en: "enter L x_api_key authorization w = (g, w3)"
    by (cases "enter L x_api_key authorization w")
  from enter_emits [OF en] obtain evs
    where w3: "log w3 = log w @ Env_get ''DRIVE_PLAYGROUND_API_KEY'' # evs"
      "\<forall>e\<in>set evs. is_oauth_event e \<or> is_resolution_event e" by blast
  from list_files_tail [OF en lf] obtain evs'
    where w': "log w' = log w3 @ evs'"
      "\<forall>e\<in>set evs'. \<exists>query. e = Request (Files_list query (Some ''drive'') (Some LIST_FIELDS)
           page_size (Some (or_else page_token [])))" by blast
  have "new_events w w' = Env_get ''DRIVE_PLAYGROUND_API_KEY'' # evs @ evs'"
    using w3 w' by (simp add: new_events_def)
  with m lf have "Request (Files_list query sp (Some LIST_FIELDS) n tok) \<in> set evs
      \<or> Request (Files_list query sp (Some LIST_FIELDS) n tok) \<in> set evs'" by auto
  then show "n = page_size"
  proof
    assume "Request (Files_list query sp (Some LIST_FIELDS) n tok) \<in> set evs"
    with w3(2) have "is_resolution_event (Request (Files_list query sp (Some LIST_FIELDS) n tok))"
      by fastforce
    then show ?thesis by (simp add: LIST_FIELDS_def)
  next
    assume "Request (Files_list query sp (Some LIST_FIELDS) n tok) \<in> set evs'"
    with w'(2) show ?thesis by fastforce
  qed
qed

theorem page_size_validated_witness:
  "((0::int) < 1 \<or> 100 < (0::int))
   \<and> app drive_libs (GET_list (Some ''secret'') None None (Some 0)) pinned_world = (unprocessable, pinned_world)
   \<and> (1 \<le> (7::int) \<and> (7::int) \<le> 100)
   \<and> app drive_libs (GET_list (Some ''secret'') None None (Some 7)) pinned_world =
        (respond (fst (list_files drive_libs (Some ''secret'') None None 7 pinned_world)),
         snd (list_files drive_libs (Some ''secret'') None None 7 pinned_world))
   \<and> Request (Files_list (children_query ''PG'') (Some ''drive'') (Some LIST_FIELDS) 7 (Some []))
        \<in> set (new_events pinned_world (snd (list_files drive_libs (Some ''secret'') None None 7 pinned_world)))"
proof -
  have "Request (Files_list (children_query ''PG'') (Some ''drive'') (Some LIST_FIELDS) 7 (Some []))
        \<in> set (new_events pinned_world (snd (list_files drive_libs (Some ''secret'') None None 7 pinned_world)))"
    by (simp add: world_defs python_defs service_defs drive_defs new_events_def Let_def)
  then show ?thesis
    using page_size_validated [of 0 drive_libs "Some ''secret''" None None pinned_world]
      page_size_validated [of 7 drive_libs "Some ''secret''" None None pinned_world]
    by simp
qed

subsection \<open>C1\<close>

text \<open>
  Claim C1, as stated: for every read that passes the gate, if the scope folder is not
  among the parents the provider's metadata lookup returns for \<open>file_id\<close>, the
  response is 403 regardless of the file's existence. The lookup of line 185 stands
  outside the \<^verbatim>\<open>try\<close> of the route: for an identifier that no file has, the provider
  returns no parents but raises, and the request ends in a 500.
\<close>

theorem read_outside_scope_forbidden_counterexample:
  "''nope'' \<notin> set (map d_id demo_drive)
   \<and> fst (drive_get (Build valid_creds) (Files_get ''nope'' (Some ''id, name, mimeType, parents'')) demo_drive) =
       Inl (HttpError 404 ''File not found: nope'')
   \<and> fst (app drive_libs (GET_content ''nope'' None (Some ''Bearer secret'')) pinned_world) =
       \<lparr>status_code = 500, payload = Internal_server_error\<rparr>"
  by (simp add: valid_creds_def world_defs python_defs service_defs drive_defs Let_def)

text \<open>
  Claim C1, amended: for every read of \<open>file_id\<close> that passes the gate, once the
  client is built and the scope folder resolved: if the provider's metadata lookup
  returns and the scope folder is not among the parents it returns (none at all, when
  the metadata has no \<^verbatim>\<open>parents\<close> field), the response is 403; if the lookup raises,
  its exception is the outcome of the route (a 500 for the provider's errors). In both
  cases no download request has been sent, and no content is returned.
\<close>

theorem read_outside_scope_forbidden:
  assumes "require_api_key x_api_key authorization w = (Inr (), w1)"
      and "get_drive_service L w1 = (Inr sv, w2)"
      and "get_playground_folder_id L sv w2 = (Inr folder_id, w3)"
      and "execute (files_get L sv) (Files_get file_id (Some ''id, name, mimeType, parents'')) w3
             = (m, w4)"
  shows "(\<forall>metadata. m = Inr metadata
             \<and> folder_id \<notin> set (case f_parents metadata of None \<Rightarrow> [] | Some ps \<Rightarrow> ps) \<longrightarrow>
           app L (GET_content file_id x_api_key authorization) w =
             (\<lparr>status_code = 403, payload = Detail NOT_A_CHILD\<rparr>, w4))
       \<and> (\<forall>e. m = Inl e \<longrightarrow>
           app L (GET_content file_id x_api_key authorization) w = (respond (Inl e), w4))
       \<and> (\<forall>e\<in>set (new_events w w4). \<not> is_download e)"
proof -
  have en: "enter L x_api_key authorization w = (Inr (sv, folder_id), w3)"
    using enter_stages [OF assms(1,2,3)] by simp
  have a: "app L (GET_content file_id x_api_key authorization) w =
             (\<lparr>status_code = 403, payload = Detail NOT_A_CHILD\<rparr>, w4)"
    if "m = Inr metadata"
      "folder_id \<notin> set (case f_parents metadata of None \<Rightarrow> [] | Some ps \<Rightarrow> ps)" for metadata
  proof -
    have "read_file L file_id x_api_key authorization w = (Inl (HTTPException 403 NOT_A_CHILD), w4)"
      using en assms(4) that by (simp add: read_file_enter)
    then show ?thesis by simp
  qed
  have c: "app L (GET_content file_id x_api_key authorization) w = (respond (Inl e), w4)"
    if "m = Inl e" for e
  proof -
    have "read_file L file_id x_api_key authorization w = (Inl e, w4)"
      using en assms(4) that by (simp add: read_file_enter)
    then show ?thesis by simp
  qed
  from enter_emits [OF en] obtain evs
    where w3: "log w3 = log w @ Env_get ''DRIVE_PLAYGROUND_API_KEY'' # evs"
      "\<forall>e\<in>set evs. is_oauth_event e \<or> is_resolution_event e" by blast
  from execute_log [OF assms(4)]
  have w4: "log w4 = log w3 @ [Request (Files_get file_id (Some ''id, name, mimeType, parents''))]"
    by simp
  have "new_events w w4 = Env_get ''DRIVE_PLAYGROUND_API_KEY'' # evs
          @ [Request (Files_get file_id (Some ''id, name, mimeType, parents''))]"
    using w3 w4 by (simp add: new_events_def)
  then have b: "\<forall>e\<in>set (new_events w w4). \<not> is_download e"
    using w3(2) oauth_not_download resolution_not_download by auto
  from a b c show ?thesis by blast
qed

theorem read_outside_scope_forbidden_witness:
  "require_api_key None (Some ''Bearer secret'') pinned_world =
     (Inr (), pinned_world\<lparr>log := [Env_get ''DRIVE_PLAYGROUND_API_KEY'']\<rparr>)
   \<and> ''PG'' \<notin> set [''root'']
   \<and> app drive_libs (GET_content ''x9'' None (Some ''Bearer secret'')) pinned_world =
       (\<lparr>status_code = 403, payload = Detail NOT_A_CHILD\<rparr>,
        pinned_world\<lparr>log := [Env_get ''DRIVE_PLAYGROUND_API_KEY'',
           Env_get ''GOOGLE_DRIVE_TOKEN_JSON'', Env_get ''DRIVE_PLAYGROUND_FOLDER_ID'',
           Request (Files_get ''x9'' (Some ''id, name, mimeType, parents''))]\<rparr>)"
proof -
  define w1 where "w1 = pinned_world\<lparr>log := [Env_get ''DRIVE_PLAYGROUND_API_KEY'']\<rparr>"
  define w2 where "w2 = pinned_world\<lparr>log := [Env_get ''DRIVE_PLAYGROUND_API_KEY'',
     Env_get ''GOOGLE_DRIVE_TOKEN_JSON'']\<rparr>"
  define w3 where "w3 = pinned_world\<lparr>log := [Env_get ''DRIVE_PLAYGROUND_API_KEY'',
     Env_get ''GOOGLE_DRIVE_TOKEN_JSON'', Env_get ''DRIVE_PLAYGROUND_FOLDER_ID'']\<rparr>"
  define w4 where "w4 = pinned_world\<lparr>log := [Env_get ''DRIVE_PLAYGROUND_API_KEY'',
     Env_get ''GOOGLE_DRIVE_TOKEN_JSON'', Env_get ''DRIVE_PLAYGROUND_FOLDER_ID'',
     Request (Files_get ''x9'' (Some ''id, name, mimeType, parents''))]\<rparr>"
  have g: "require_api_key None (Some ''Bearer secret'') pinned_world = (Inr (), w1)"
    by (simp add: w1_def world_defs python_defs service_defs Let_def)
  have s: "get_drive_service drive_libs w1 = (Inr (Build valid_creds), w2)"
    by (simp add: w1_def w2_def valid_creds_def world_defs python_defs service_defs drive_defs Let_def)
  have f: "get_playground_folder_id drive_libs (Build valid_creds) w2 = (Inr ''PG'', w3)"
    by (simp add: w2_def w3_def world_defs python_defs service_defs Let_def)
  have m: "execute (files_get drive_libs (Build valid_creds))
             (Files_get ''x9'' (Some ''id, name, mimeType, parents'')) w3
     = (Inr (describe (text_file ''x9'' ''private.txt'' ''root'' ''keep out'')), w4)"
    by (simp add: w3_def w4_def world_defs service_defs drive_defs Let_def)
  have p: "''PG'' \<notin> set (case f_parents (describe (text_file ''x9'' ''private.txt'' ''root'' ''keep out'')) of
      None \<Rightarrow> [] | Some ps \<Rightarrow> ps)"
    by (simp add: describe_def text_file_def)
  show ?thesis
    using g p read_outside_scope_forbidden [OF g s f m] by (simp add: w1_def w4_def)
qed

subsection \<open>C4\<close>

text \<open>
  Claim C4, as stated: when a step of the walk finds no folder, the operation fails
  with an error naming the full path and the step, and that failure is mapped to an
  HTTP 404. The code raises a \<^verbatim>\<open>ValueError\<close>, which no route catches and for which the
  application registers no handler: the response is a 500.
\<close>

theorem missing_folder_fails_counterexample:
  "fst (get_playground_folder_id drive_libs (Build valid_creds)
          (demo_world\<lparr>remote := [folder ''d1'' ''Personal'' ''root'']\<rparr>)) =
     Inl (ValueError (folder_not_found ''AI Research''))
   \<and> status_code (fst (app drive_libs (GET_list (Some ''secret'') None None None)
                     (demo_world\<lparr>remote := [folder ''d1'' ''Personal'' ''root'']\<rparr>))) = 500
   \<and> status_code (fst (app drive_libs (GET_list (Some ''secret'') None None None)
                     (demo_world\<lparr>remote := [folder ''d1'' ''Personal'' ''root'']\<rparr>))) \<noteq> 404"
  by (simp add: valid_creds_def world_defs python_defs service_defs drive_defs Let_def)

text \<open>
  Claim C4, amended: with no folder identifier configured, when a step of the walk
  finds no matching folder, the resolution fails with a \<^verbatim>\<open>ValueError\<close> whose message
  names the full intended path and the name looked up at the failing step; every gated
  route lets that error through unhandled, so the response is a 500.
\<close>

theorem missing_folder_fails:
  assumes "require_api_key x_api_key authorization w = (Inr (), w1)"
      and "get_drive_service L w1 = (Inr sv, w2)"
      and "strip (or_else (environ w2 ''DRIVE_PLAYGROUND_FOLDER_ID'') []) = []"
      and "missing_step L sv ''root'' PLAYGROUND_PATH w2 = Some nm"
      and "headers_of req = Some (x_api_key, authorization)"
      and "passes_validation req"
  shows "fst (get_playground_folder_id L sv w2) =
           Inl (ValueError (''Folder not found: Personal / AI Research / OpenClaw Playground. Missing after: ''
                  @ nm @ ''. Create the folder in Drive or set DRIVE_PLAYGROUND_FOLDER_ID to the folder ID.''))
       \<and> nm \<in> set PLAYGROUND_PATH
       \<and> fst (app L req w) = \<lparr>status_code = 500, payload = Internal_server_error\<rparr>"
proof -
  let ?w = "w2\<lparr>log := log w2 @ [Env_get ''DRIVE_PLAYGROUND_FOLDER_ID'']\<rparr>"
  have "missing_step L sv ''root'' PLAYGROUND_PATH ?w = Some nm"
    using assms(4) missing_step_congr [of ?w w2 L sv "''root''" PLAYGROUND_PATH] by simp
  from walk_missing_step [OF this]
  have wk: "fst (walk L sv ''root'' PLAYGROUND_PATH ?w) = Inl (ValueError (folder_not_found nm))"
    and nm: "nm \<in> set PLAYGROUND_PATH" by simp_all
  have r: "fst (get_playground_folder_id L sv w2) = Inl (ValueError (folder_not_found nm))"
    using wk by (simp add: get_playground_folder_id_unset [OF assms(3)])
  obtain w3 where "get_playground_folder_id L sv w2 = (Inl (ValueError (folder_not_found nm)), w3)"
    using r by (cases "get_playground_folder_id L sv w2") simp
  from enter_stages [OF assms(1,2) this]
  have "enter L x_api_key authorization w = (Inl (ValueError (folder_not_found nm)), w3)" by simp
  from app_enter_failed [OF this assms(5,6)]
  have "fst (app L req w) = \<lparr>status_code = 500, payload = Internal_server_error\<rparr>" by simp
  with r nm show ?thesis by (simp add: folder_not_found_text)
qed


theorem missing_folder_fails_witness:
  "require_api_key (Some ''secret'') None (demo_world\<lparr>remote := [folder ''d1'' ''Personal'' ''root'']\<rparr>) =
     (Inr (), demo_world\<lparr>remote := [folder ''d1'' ''Personal'' ''root''],
                         log := [Env_get ''DRIVE_PLAYGROUND_API_KEY'']\<rparr>)
   \<and> missing_step drive_libs (Build valid_creds) ''root'' PLAYGROUND_PATH
        (demo_world\<lparr>remote := [folder ''d1'' ''Personal'' ''root''],
                    log := [Env_get ''DRIVE_PLAYGROUND_API_KEY'', Env_get ''GOOGLE_DRIVE_TOKEN_JSON'']\<rparr>)
       = Some ''AI Research''
   \<and> fst (app drive_libs (GET_list (Some ''secret'') None None None)
            (demo_world\<lparr>remote := [folder ''d1'' ''Personal'' ''root'']\<rparr>)) =
       \<lparr>status_code = 500, payload = Internal_server_error\<rparr>"
proof -
  define w where "w = demo_world\<lparr>remote := [folder ''d1'' ''Personal'' ''root'']\<rparr>"
  define w1 where "w1 = demo_world\<lparr>remote := [folder ''d1'' ''Personal'' ''root''],
                         log := [Env_get ''DRIVE_PLAYGROUND_API_KEY'']\<rparr>"
  define w2 where "w2 = demo_world\<lparr>remote := [folder ''d1'' ''Personal'' ''root''],
                    log := [Env_get ''DRIVE_PLAYGROUND_API_KEY'', Env_get ''GOOGLE_DRIVE_TOKEN_JSON'']\<rparr>"
  have g: "require_api_key (Some ''secret'') None w = (Inr (), w1)"
    by (simp add: w_def w1_def world_defs python_defs service_defs Let_def)
  have s: "get_drive_service drive_libs w1 = (Inr (Build valid_creds), w2)"
    by (simp add: w1_def w2_def valid_creds_def world_defs python_defs service_defs drive_defs Let_def)
  have u: "strip (or_else (environ w2 ''DRIVE_PLAYGROUND_FOLDER_ID'') []) = []"
    by (simp add: w2_def world_defs python_defs)
  have m: "missing_step drive_libs (Build valid_creds) ''root'' PLAYGROUND_PATH w2 = Some ''AI Research''"
    by (simp add: w2_def world_defs python_defs service_defs drive_defs Let_def)
  have h: "headers_of (GET_list (Some ''secret'') None None None) = Some (Some ''secret'', None)"
    "passes_validation (GET_list (Some ''secret'') None None None)" by simp_all
  show ?thesis
    using g m missing_folder_fails [OF g s u m h]
    by (simp add: w_def w1_def w2_def)
qed

subsection \<open>C9\<close>

text \<open>
  Claim C9: folder resolution is idempotent. A configured folder identifier is
  returned directly, with no provider call (the only effect is the read of the
  variable); the result of a resolution depends on nothing but the environment and the
  state of the provider, so resolving again against an unchanged provider state, in
  particular right after a resolution that left it unchanged, yields the same folder
  identifier.
\<close>

theorem folder_resolution_idempotent:
  "(strip (or_else (environ w ''DRIVE_PLAYGROUND_FOLDER_ID'') []) \<noteq> [] \<longrightarrow>
      get_playground_folder_id L sv w =
        (Inr (strip (or_else (environ w ''DRIVE_PLAYGROUND_FOLDER_ID'') [])),
         w\<lparr>log := log w @ [Env_get ''DRIVE_PLAYGROUND_FOLDER_ID'']\<rparr>))
   \<and> (remote w' = remote w \<and> environ w' = environ w \<longrightarrow>
      fst (get_playground_folder_id L sv w') = fst (get_playground_folder_id L sv w))
   \<and> (remote (snd (get_playground_folder_id L sv w)) = remote w \<longrightarrow>
      fst (get_playground_folder_id L sv (snd (get_playground_folder_id L sv w))) =
        fst (get_playground_folder_id L sv w))"
proof (intro conjI impI)
  assume "strip (or_else (environ w ''DRIVE_PLAYGROUND_FOLDER_ID'') []) \<noteq> []"
  then show "get_playground_folder_id L sv w =
        (Inr (strip (or_else (environ w ''DRIVE_PLAYGROUND_FOLDER_ID'') [])),
         w\<lparr>log := log w @ [Env_get ''DRIVE_PLAYGROUND_FOLDER_ID'']\<rparr>)"
    by (rule get_playground_folder_id_set)
next
  assume "remote w' = remote w \<and> environ w' = environ w"
  then show "fst (get_playground_folder_id L sv w') = fst (get_playground_folder_id L sv w)"
    using get_playground_folder_id_congr [of w' w L sv] by simp
next
  assume a: "remote (snd (get_playground_folder_id L sv w)) = remote w"
  obtain r w1 where g: "get_playground_folder_id L sv w = (r, w1)"
    by (cases "get_playground_folder_id L sv w")
  from get_playground_folder_id_emits [OF g] have "environ w1 = environ w" by simp
  moreover from a g have "remote w1 = remote w" by simp
  ultimately show "fst (get_playground_folder_id L sv (snd (get_playground_folder_id L sv w))) =
        fst (get_playground_folder_id L sv w)"
    using get_playground_folder_id_congr [of w1 w L sv] g by simp
qed

theorem folder_resolution_idempotent_witness:
  "strip (or_else (environ pinned_world ''DRIVE_PLAYGROUND_FOLDER_ID'') []) \<noteq> []
   \<and> get_playground_folder_id drive_libs (Build valid_creds) pinned_world =
        (Inr ''PG'', pinned_world\<lparr>log := [Env_get ''DRIVE_PLAYGROUND_FOLDER_ID'']\<rparr>)
   \<and> remote (snd (get_playground_folder_id drive_libs (Build valid_creds) demo_world)) = remote demo_world
   \<and> fst (get_playground_folder_id drive_libs (Build valid_creds) demo_world) = Inr ''PG''
   \<and> fst (get_playground_folder_id drive_libs (Build valid_creds)
            (snd (get_playground_folder_id drive_libs (Build valid_creds) demo_world))) = Inr ''PG''"
proof -
  have a: "strip (or_else (environ pinned_world ''DRIVE_PLAYGROUND_FOLDER_ID'') []) = ''PG''"
    by (simp add: world_defs python_defs)
  have b: "get_playground_folder_id drive_libs (Build valid_creds) demo_world =
     (Inr ''PG'', demo_world\<lparr>log := [Env_get ''DRIVE_PLAYGROUND_FOLDER_ID'',
        Request (Files_list (folder_query ''root'' ''Personal'') (Some ''drive'') (Some ''files(id, name)'') 1 None),
        Request (Files_list (folder_query ''d1'' ''AI Research'') (Some ''drive'') (Some ''files(id, name)'') 1 None),
        Request (Files_list (folder_query ''d2'' ''OpenClaw Playground'') (Some ''drive'') (Some ''files(id, name)'') 1 None)]\<rparr>)"
    by (simp add: world_defs python_defs service_defs drive_defs Let_def)
  show ?thesis
    using a b folder_resolution_idempotent [of pinned_world drive_libs "Build valid_creds"]
      folder_resolution_idempotent [of demo_world drive_libs "Build valid_creds"]
    by (simp add: pinned_world_def demo_world_def)
qed

subsection \<open>C7\<close>

text \<open>
  Claim C7, as stated: after every successful interactive authorization whose
  credential did not come from the token blob of the environment, the token is written
  to the local token file. The code writes it only if, moreover, no token file exists:
  after a flow made necessary by an expired token file that cannot be refreshed, the
  stale file is left as it is.
\<close>

theorem token_saved_on_first_run_counterexample:
  "strip (or_else (environ stale_token_world ''GOOGLE_DRIVE_TOKEN_JSON'') []) = []
   \<and> fst (get_drive_service drive_libs stale_token_world) = Inr (Build valid_creds)
   \<and> Interactive_flow \<in> set (log (snd (get_drive_service drive_libs stale_token_world)))
   \<and> disk (snd (get_drive_service drive_libs stale_token_world)) (TOKEN_FILE drive_libs) = Some ''STALE''
   \<and> to_json valid_creds = ''VALID''"
  by (simp add: valid_creds_def world_defs python_defs service_defs drive_defs Let_def)


text \<open>
  Claim C7, amended: after a successful interactive authorization, the resulting token
  is written to the local token file when the token blob of the environment is unset
  or blank and the token file does not exist yet; in every other case the local disk
  is left unchanged.
\<close>

theorem token_saved_on_first_run:
  assumes "get_drive_service L w = (Inr (Build c), w')"
      and "Interactive_flow \<in> set (new_events w w')"
  shows "(strip (or_else (environ w ''GOOGLE_DRIVE_TOKEN_JSON'') []) = [] \<and> disk w (TOKEN_FILE L) = None
            \<longrightarrow> disk w' = (disk w)(TOKEN_FILE L \<mapsto> to_json c))
       \<and> (strip (or_else (environ w ''GOOGLE_DRIVE_TOKEN_JSON'') []) \<noteq> [] \<or> disk w (TOKEN_FILE L) \<noteq> None
            \<longrightarrow> disk w' = disk w)"
proof -
  from get_drive_service_cases [OF assms(1)] assms(2)
  obtain w2 evs where w2: "log w2 = log w @ evs" "disk w2 = disk w"
    "first_time_oauth L (strip (or_else (environ w ''GOOGLE_DRIVE_TOKEN_JSON'') [])) w2 = (Inr (Build c), w')"
    by blast
  from first_time_oauth_disk [OF w2(3)] w2(2) show ?thesis by auto
qed

theorem token_saved_on_first_run_witness:
  "get_drive_service drive_libs first_run_world =
     (Inr (Build valid_creds),
      first_run_world\<lparr>disk := (disk first_run_world)(''/app/token.json'' \<mapsto> ''VALID''),
        log := [Env_get ''GOOGLE_DRIVE_TOKEN_JSON'', Env_get ''GOOGLE_APPLICATION_CREDENTIALS'',
                Env_get ''GOOGLE_DRIVE_CREDENTIALS_JSON'', Interactive_flow,
                File_write ''/app/token.json'' ''VALID'']\<rparr>)
   \<and> strip (or_else (environ first_run_world ''GOOGLE_DRIVE_TOKEN_JSON'') []) = []
   \<and> disk first_run_world (TOKEN_FILE drive_libs) = None
   \<and> disk (snd (get_drive_service drive_libs first_run_world)) =
        (disk first_run_world)(TOKEN_FILE drive_libs \<mapsto> to_json valid_creds)"
proof -
  define w' where "w' = first_run_world\<lparr>disk := (disk first_run_world)(''/app/token.json'' \<mapsto> ''VALID''),
        log := [Env_get ''GOOGLE_DRIVE_TOKEN_JSON'', Env_get ''GOOGLE_APPLICATION_CREDENTIALS'',
                Env_get ''GOOGLE_DRIVE_CREDENTIALS_JSON'', Interactive_flow,
                File_write ''/app/token.json'' ''VALID'']\<rparr>"
  have g: "get_drive_service drive_libs first_run_world = (Inr (Build valid_creds), w')"
    by (simp add: w'_def valid_creds_def world_defs python_defs service_defs drive_defs Let_def)
  have r: "Interactive_flow \<in> set (new_events first_run_world w')"
    by (simp add: w'_def new_events_def first_run_world_def)
  have t: "strip (or_else (environ first_run_world ''GOOGLE_DRIVE_TOKEN_JSON'') []) = []"
    "disk first_run_world (TOKEN_FILE drive_libs) = None"
    by (simp_all add: world_defs python_defs TOKEN_FILE_def drive_libs_def)
  show ?thesis
    using g t token_saved_on_first_run [OF g r] by (simp add: w'_def)
qed

subsection \<open>C10\<close>

text \<open>
  Claim C10: a write that takes the update path sends the rename, and then the new
  content, as two updates of the file found; neither carries a \<^verbatim>\<open>parents\<close> field,
  so with any provider whose update leaves the parents alone when none are sent (the
  reference instance is one) the parents of every file are what they were. Only the
  create path sends parents, and they are the one-element list of the resolved scope
  folder.
\<close>

theorem write_file_parents:
  fixes P :: "'s \<Rightarrow> 'p"
  assumes "require_api_key x_api_key authorization w = (Inr (), w1)"
      and "get_drive_service L w1 = (Inr sv, w2)"
      and "get_playground_folder_id L sv w2 = (Inr folder_id, w3)"
      and "execute (files_list L sv)
             (Files_list (name_query folder_id (name b)) None (Some ''files(id)'') 1 None) w3
           = (Inr existing, w4)"
      and "write_file L b x_api_key authorization w = (r, w')"
  shows "(\<forall>c. Request c \<in> set (new_events w w') \<longrightarrow>
            (case c of
               Files_update i d m \<Rightarrow> parents_sent c = None
             | Files_create d m fl \<Rightarrow> parents_sent c = Some (JL [folder_id])
             | _ \<Rightarrow> True))
       \<and> (get_files existing \<noteq> [] \<longrightarrow>
            new_events w4 w' =
              [Request (Files_update (f_id (hd (get_files existing))) (Some [(''name'', JS (name b))]) None)]
            \<or> new_events w4 w' =
              [Request (Files_update (f_id (hd (get_files existing))) (Some [(''name'', JS (name b))]) None),
               Request (Files_update (f_id (hd (get_files existing))) None
                  (Some \<lparr>m_data = encode_utf8 L (content b), m_mimetype = mime_type b\<rparr>))])
       \<and> (get_files existing = [] \<longrightarrow>
            new_events w4 w' =
              [Request (Files_create
                 (Some [(''name'', JS (name b)), (''mimeType'', JS (mime_type b)), (''parents'', JL [folder_id])])
                 (Some \<lparr>m_data = encode_utf8 L (content b), m_mimetype = mime_type b\<rparr>) (Some ''id''))])
       \<and> (get_files existing \<noteq> [] \<and>
            (\<forall>c s. parents_sent c = None \<longrightarrow> P (snd (files_update L sv c s)) = P s)
            \<longrightarrow> P (remote w') = P (remote w4))"
proof -
  have en: "enter L x_api_key authorization w = (Inr (sv, folder_id), w3)"
    using enter_stages [OF assms(1,2,3)] by simp
  from enter_emits [OF en] obtain evs
    where w3: "log w3 = log w @ Env_get ''DRIVE_PLAYGROUND_API_KEY'' # evs"
      "\<forall>e\<in>set evs. is_oauth_event e \<or> is_resolution_event e" by blast
  from execute_log [OF assms(4)]
  have w4: "log w4 = log w3 @ [Request (Files_list (name_query folder_id (name b)) None (Some ''files(id)'') 1 None)]"
    by simp
  note tail = write_file_after_query [OF en assms(4,5)]
  define U1 where "U1 = Files_update (f_id (hd (get_files existing))) (Some [(''name'', JS (name b))]) None"
  define U2 where "U2 = Files_update (f_id (hd (get_files existing))) None
                  (Some \<lparr>m_data = encode_utf8 L (content b), m_mimetype = mime_type b\<rparr>)"
  define C where "C = Files_create
                 (Some [(''name'', JS (name b)), (''mimeType'', JS (mime_type b)), (''parents'', JL [folder_id])])
                 (Some \<lparr>m_data = encode_utf8 L (content b), m_mimetype = mime_type b\<rparr>) (Some ''id'')"
  have ps: "parents_sent U1 = None" "parents_sent U2 = None" "parents_sent C = Some (JL [folder_id])"
    by (simp_all add: U1_def U2_def C_def)
  from tail have t: "(get_files existing = [] \<and> new_events w4 w' = [Request C])
       \<or> (get_files existing \<noteq> [] \<and>
            ((new_events w4 w' = [Request U1] \<and> remote w' = snd (files_update L sv U1 (remote w4)))
           \<or> (new_events w4 w' = [Request U1, Request U2]
               \<and> remote w' = snd (files_update L sv U2 (snd (files_update L sv U1 (remote w4)))))))"
    unfolding U1_def U2_def C_def new_events_def by auto
  define tl where "tl = new_events w4 w'"
  have ext: "log w' = log w4 @ tl"
    using tail unfolding tl_def by (auto simp: new_events_def)
  have "new_events w w' = Env_get ''DRIVE_PLAYGROUND_API_KEY'' # evs
       @ [Request (Files_list (name_query folder_id (name b)) None (Some ''files(id)'') 1 None)]
       @ tl"
    using w3 w4 ext by (simp add: new_events_def)
  then have all: "new_events w w' = Env_get ''DRIVE_PLAYGROUND_API_KEY'' # evs
       @ [Request (Files_list (name_query folder_id (name b)) None (Some ''files(id)'') 1 None)]
       @ new_events w4 w'"
    unfolding tl_def .
  have c1: "case c of
               Files_update i d m \<Rightarrow> parents_sent c = None
             | Files_create d m fl \<Rightarrow> parents_sent c = Some (JL [folder_id])
             | _ \<Rightarrow> True" if "Request c \<in> set (new_events w w')" for c
  proof -
    from that all have "Request c \<in> set evs
       \<or> c = Files_list (name_query folder_id (name b)) None (Some ''files(id)'') 1 None
       \<or> Request c \<in> set (new_events w4 w')" by auto
    then show ?thesis
    proof (elim disjE)
      assume "Request c \<in> set evs"
      with w3(2) have "is_resolution_event (Request c)" by fastforce
      from resolution_request [OF this] show ?thesis by auto
    next
      assume "c = Files_list (name_query folder_id (name b)) None (Some ''files(id)'') 1 None"
      then show ?thesis by simp
    next
      assume "Request c \<in> set (new_events w4 w')"
      with t have "c = C \<or> c = U1 \<or> c = U2" by auto
      with ps show ?thesis by (auto simp: U1_def U2_def C_def)
    qed
  qed
  have c2: "get_files existing \<noteq> [] \<longrightarrow>
      new_events w4 w' = [Request U1] \<or> new_events w4 w' = [Request U1, Request U2]"
    using t by auto
  have c3: "get_files existing = [] \<longrightarrow> new_events w4 w' = [Request C]"
    using t by auto
  have c4: "get_files existing \<noteq> [] \<and>
            (\<forall>c s. parents_sent c = None \<longrightarrow> P (snd (files_update L sv c s)) = P s)
            \<longrightarrow> P (remote w') = P (remote w4)"
    using t ps by auto
  show ?thesis
    using c1 c2 c3 c4 unfolding U1_def U2_def C_def by blast
qed

theorem write_file_parents_witness:
  "require_api_key (Some ''secret'') None pinned_world =
     (Inr (), pinned_world\<lparr>log := [Env_get ''DRIVE_PLAYGROUND_API_KEY'']\<rparr>)
   \<and> fst (write_file drive_libs \<lparr>name = ''a'', content = ''hi again'', mime_type = ''text/plain''\<rparr>
            (Some ''secret'') None pinned_world) = Inr (Written ''f1'' ''updated'')
   \<and> map (\<lambda>f. (d_id f, d_parents f))
        (remote (snd (write_file drive_libs \<lparr>name = ''a'', content = ''hi again'', mime_type = ''text/plain''\<rparr>
            (Some ''secret'') None pinned_world))) =
      map (\<lambda>f. (d_id f, d_parents f)) demo_drive"
proof -
  define b where "b = \<lparr>name = ''a'', content = ''hi again'', mime_type = ''text/plain''\<rparr>"
  define w1 where "w1 = pinned_world\<lparr>log := [Env_get ''DRIVE_PLAYGROUND_API_KEY'']\<rparr>"
  define w2 where "w2 = pinned_world\<lparr>log := [Env_get ''DRIVE_PLAYGROUND_API_KEY'',
     Env_get ''GOOGLE_DRIVE_TOKEN_JSON'']\<rparr>"
  define w3 where "w3 = pinned_world\<lparr>log := [Env_get ''DRIVE_PLAYGROUND_API_KEY'',
     Env_get ''GOOGLE_DRIVE_TOKEN_JSON'', Env_get ''DRIVE_PLAYGROUND_FOLDER_ID'']\<rparr>"
  define w4 where "w4 = pinned_world\<lparr>log := [Env_get ''DRIVE_PLAYGROUND_API_KEY'',
     Env_get ''GOOGLE_DRIVE_TOKEN_JSON'', Env_get ''DRIVE_PLAYGROUND_FOLDER_ID'',
     Request (Files_list (name_query ''PG'' ''a'') None (Some ''files(id)'') 1 None)]\<rparr>"
  define existing where "existing =
     \<lparr>files = Some [describe (text_file ''f1'' ''a'' ''PG'' ''hi'')], nextPageToken = None\<rparr>"
  have g: "require_api_key (Some ''secret'') None pinned_world = (Inr (), w1)"
    by (simp add: w1_def world_defs python_defs service_defs Let_def)
  have s: "get_drive_service drive_libs w1 = (Inr (Build valid_creds), w2)"
    by (simp add: w1_def w2_def valid_creds_def world_defs python_defs service_defs drive_defs Let_def)
  have f: "get_playground_folder_id drive_libs (Build valid_creds) w2 = (Inr ''PG'', w3)"
    by (simp add: w2_def w3_def world_defs python_defs service_defs Let_def)
  have q: "execute (files_list drive_libs (Build valid_creds))
             (Files_list (name_query ''PG'' (name b)) None (Some ''files(id)'') 1 None) w3
           = (Inr existing, w4)"
    by (simp add: w3_def w4_def b_def existing_def world_defs python_defs service_defs drive_defs Let_def)
  obtain r w' where wf: "write_file drive_libs b (Some ''secret'') None pinned_world = (r, w')"
    by (cases "write_file drive_libs b (Some ''secret'') None pinned_world")
  have ne: "get_files existing \<noteq> []" by (simp add: existing_def get_files_def)
  have fr: "\<forall>c s. parents_sent c = None \<longrightarrow>
         map (\<lambda>f. (d_id f, d_parents f)) (snd (files_update drive_libs (Build valid_creds) c s)) =
         map (\<lambda>f. (d_id f, d_parents f)) s"
    by (simp add: drive_libs_def drive_update_frame)
  have r4: "remote w4 = demo_drive" by (simp add: w4_def pinned_world_def)
  have ev: "fst (write_file drive_libs b (Some ''secret'') None pinned_world) = Inr (Written ''f1'' ''updated'')"
    by (simp add: b_def world_defs python_defs service_defs drive_defs Let_def)
  from write_file_parents [OF g s f q wf, where P = "map (\<lambda>f. (d_id f, d_parents f))"] ne fr
  have "map (\<lambda>f. (d_id f, d_parents f)) (remote w') = map (\<lambda>f. (d_id f, d_parents f)) (remote w4)"
    by blast
  with g ev wf r4 show ?thesis by (simp add: w1_def b_def)
qed

subsection \<open>C3\<close>

text \<open>
  Claim C3 says that a write updates the file of the scope folder that has exactly the
  given name, and creates a file when there is none. Line 224 puts the name between
  single quotes in the search expression without escaping it, so a name with a single
  quote in it is not looked up as it is. On the reference instance, writing the name
  \<^verbatim>\<open>a' and name = 'a\<close>, which no file has, is answered \<^verbatim>\<open>updated\<close> with the identifier
  of the file named \<^verbatim>\<open>a\<close>, which is renamed and overwritten; and writing
  \<^verbatim>\<open>it's.txt\<close> sends an expression the provider rejects, so that the request fails
  with a 500 and nothing is created. For names and folder identifiers without a single
  quote or a backslash the claim holds on the reference instance: that is
  \<open>write_file_plain_name\<close> above.
\<close>

theorem write_file_quoted_name:
  "quoted_name \<notin> set (map d_name demo_drive)
   \<and> fst (app drive_libs (POST_write quoted_name ''new'' None (Some ''secret'') None) pinned_world) =
       \<lparr>status_code = 200, payload = Ok (Written ''f1'' ''updated'')\<rparr>
   \<and> map d_name (remote (snd (app drive_libs (POST_write quoted_name ''new'' None (Some ''secret'') None)
                                pinned_world))) =
       [''Personal'', ''AI Research'', ''OpenClaw Playground'', quoted_name, ''private.txt'']
   \<and> ''it's.txt'' \<notin> set (map d_name demo_drive)
   \<and> app drive_libs (POST_write ''it's.txt'' ''new'' None (Some ''secret'') None) pinned_world =
       (\<lparr>status_code = 500, payload = Internal_server_error\<rparr>,
        pinned_world\<lparr>log := [Env_get ''DRIVE_PLAYGROUND_API_KEY'', Env_get ''GOOGLE_DRIVE_TOKEN_JSON'',
           Env_get ''DRIVE_PLAYGROUND_FOLDER_ID'',
           Request (Files_list (name_query ''PG'' ''it's.txt'') None (Some ''files(id)'') 1 None)]\<rparr>)"
  by (simp add: quoted_name_def world_defs python_defs service_defs drive_defs Let_def)

end
